theory Spec2Isabelle
  imports Main "HOL-Library.Sublist" "HOL-Library.Word"
begin

section \<open>JavaScript values and strings\<close>

text \<open>
  A JavaScript string is a sequence of UTF-16 code units. The model uses \<^typ>\<open>string\<close>:
  a \<^typ>\<open>char\<close> stands for the code unit of the same number, so the strings covered are
  those whose code units lie in 0..255, and \<open>length\<close> is the \<open>.length\<close> of the source.

  Values are the JSON-shaped values a webhook body or a header table can hold. \<open>JNum\<close>
  carries the integers from \<open>- 2 ^ 53\<close> to \<open>2 ^ 53 - 1\<close> (read with \<open>sint\<close>), each of which a
  double holds exactly and \<open>String\<close> prints in plain decimal digits; \<open>JObj\<close> carries the own
  enumerable properties of an object parsed from JSON, each name once, in the order of
  \<open>Object.entries\<close>. No value is a function.
\<close>

datatype jsval =
    JUndefined
  | JNull
  | JBool bool
  | JNum "54 word"
  | JStr string
  | JArr "jsval list"
  | JObj "(string \<times> jsval) list"

text \<open>Truthiness, as \<open>!value\<close>, \<open>a || b\<close> and \<open>if (value)\<close> test it.\<close>

fun truthy :: "jsval \<Rightarrow> bool" where
  "truthy JUndefined = False"
| "truthy JNull = False"
| "truthy (JBool b) = b"
| "truthy (JNum n) = (n \<noteq> 0)"
| "truthy (JStr s) = (s \<noteq> [])"
| "truthy (JArr xs) = True"
| "truthy (JObj kvs) = True"

definition js_or :: "jsval \<Rightarrow> jsval \<Rightarrow> jsval" where
  "js_or a b = (if truthy a then a else b)"

text \<open>Decimal rendering of a number, as \<open>String(n)\<close> gives it for an integer.\<close>

definition digit_char :: "nat \<Rightarrow> char" where
  "digit_char n = ''0123456789'' ! n"

fun nat_digits :: "nat \<Rightarrow> string" where
  "nat_digits n = (if n < 10 then [digit_char n] else nat_digits (n div 10) @ [digit_char (n mod 10)])"

declare nat_digits.simps [simp del]

definition int_digits :: "int \<Rightarrow> string" where
  "int_digits i = (if i < 0 then CHR ''-'' # nat_digits (nat (- i)) else nat_digits (nat i))"

text \<open>\<open>Array.prototype.join\<close> on strings.\<close>

fun join :: "string \<Rightarrow> string list \<Rightarrow> string" where
  "join sep [] = []"
| "join sep [x] = x"
| "join sep (x # y # ys) = x @ sep @ join sep (y # ys)"

text \<open>
  \<open>String(value)\<close>, which is also the conversion a template literal applies, throws a
  \<open>TypeError\<close> for an object with an own \<open>toString\<close> entry: the entry is not a function, and
  \<open>valueOf\<close> (own and not a function, or inherited and returning the object) gives no
  primitive either. An array converts its elements, so it throws when one of them does.
\<close>

fun String_throws :: "jsval \<Rightarrow> bool" where
  "String_throws (JObj kvs) = (''toString'' \<in> set (map fst kvs))"
| "String_throws (JArr xs) = list_ex String_throws xs"
| "String_throws v = False"

text \<open>
  \<open>toString\<close> is the string that \<open>String(value)\<close> returns when it does not throw. An array is
  its elements joined by commas, \<open>null\<close> and \<open>undefined\<close> elements giving the empty string;
  an object without an own \<open>toString\<close> entry is \<open>[object Object]\<close>.
\<close>

fun toString :: "jsval \<Rightarrow> string" where
  "toString JUndefined = ''undefined''"
| "toString JNull = ''null''"
| "toString (JBool b) = (if b then ''true'' else ''false'')"
| "toString (JNum n) = int_digits (sint n)"
| "toString (JStr s) = s"
| "toString (JArr xs) =
     join '','' (map (\<lambda>x. if x = JUndefined \<or> x = JNull then [] else toString x) xs)"
| "toString (JObj kvs) = ''[object Object]''"

text \<open>White space of \<open>String.prototype.trim\<close> among the code units 0..255.\<close>

definition is_ws :: "char \<Rightarrow> bool" where
  "is_ws c = ((of_char c :: nat) \<in> set [0x09, 0x0A, 0x0B, 0x0C, 0x0D, 0x20, 0xA0])"

definition trim :: "string \<Rightarrow> string" where
  "trim s = rev (dropWhile is_ws (rev (dropWhile is_ws s)))"

text \<open>
  \<open>String.prototype.toLowerCase\<close> on strings of the code units 0..255: the letters A..Z and
  the Latin-1 capitals 0xC0..0xDE (0xD7, the multiplication sign, is not a letter) move
  up by 32, one code unit for one. The rules of \<open>toLowerCase\<close> that look at the neighbours
  of a letter or change the length (the Greek capital sigma, the dotted capital I) are
  about code units above 255 and have no case in this range.
\<close>

definition lower_char :: "char \<Rightarrow> char" where
  "lower_char c =
     (let n = (of_char c :: nat)
      in if (65 \<le> n \<and> n \<le> 90) \<or> (192 \<le> n \<and> n \<le> 222 \<and> n \<noteq> 215)
         then char_of (n + 32) else c)"

definition toLowerCase :: "string \<Rightarrow> string" where
  "toLowerCase s = map lower_char s"

text \<open>\<open>String.prototype.includes\<close>: the keyword occurs as a contiguous run.\<close>

fun starts_with :: "string \<Rightarrow> string \<Rightarrow> bool" where
  "starts_with t [] = True"
| "starts_with [] (k # ks) = False"
| "starts_with (c # cs) (k # ks) = (c = k \<and> starts_with cs ks)"

fun str_includes :: "string \<Rightarrow> string \<Rightarrow> bool" where
  "str_includes [] k = (k = [])"
| "str_includes (c # cs) k = (starts_with (c # cs) k \<or> str_includes cs k)"


section \<open>The webhook's pure helpers\<close>

text \<open>The constants of the source.\<close>

definition KEYWORDS :: "string list" where
  "KEYWORDS =
     [''interview'', ''shortlisted'', ''schedule'', ''assessment'', ''recruiter'', ''hr'',
      ''selection process'', ''invite'', ''naukri'', ''naukri.com'', ''call'', ''zoom'',
      ''google meet'', ''date'', ''time'']"

definition DEFAULT_SOURCE :: string where
  "DEFAULT_SOURCE = ''Gmail/Naukri''"

definition DEFAULT_THRESHOLD :: int where
  "DEFAULT_THRESHOLD = 3"

definition DEDUPE_TTL_SECONDS :: nat where
  "DEDUPE_TTL_SECONDS = 24 * 60 * 60"

definition SYNC_SERVICE_NAME :: string where
  "SYNC_SERVICE_NAME = ''whatsapp-naukri-zapier-twilio''"

definition SEND_RETRY_DELAY_MS :: nat where
  "SEND_RETRY_DELAY_MS = 800"

text \<open>
  What the code throws and catches: an error object, of which the code reads \<open>status\<close> and
  \<open>statusCode\<close>. They are numbers or absent (\<open>None\<close>), and \<open>Number\<close> of an absent status is
  \<open>NaN\<close>, which equals no number. A \<open>TypeError\<close> has neither.
\<close>

record js_error =
  status :: "int option"
  statusCode :: "int option"

definition TypeError :: js_error where
  "TypeError = \<lparr>status = None, statusCode = None\<rparr>"

text \<open>
  \<open>cleanString\<close>: the empty string for \<open>null\<close> and \<open>undefined\<close>, else \<open>String(value).trim()\<close>,
  which throws when \<open>String(value)\<close> does. \<open>trimmed_string\<close> is the string it returns when
  it returns.
\<close>

definition trimmed_string :: "jsval \<Rightarrow> string" where
  "trimmed_string v = (if v = JNull \<or> v = JUndefined then [] else trim (toString v))"

definition cleanString :: "jsval \<Rightarrow> js_error + string" where
  "cleanString v =
     (if v = JNull \<or> v = JUndefined then Inr []
      else if String_throws v then Inl TypeError
      else Inr (trim (toString v)))"

text \<open>
  \<open>clip\<close> is called on fields of the payload that \<open>parsePayload\<close> has built, and by the tests
  on strings and fields left out: values for which \<open>cleanString\<close> returns.
\<close>

definition clip :: "jsval \<Rightarrow> nat \<Rightarrow> string" where
  "clip v maxLength =
     (let text = trimmed_string v
      in if text = [] then []
         else if length text > maxLength then take maxLength text else text)"

text \<open>
  Property access \<open>value?.name\<close>. Every name the source reads this way (\<open>request\<close>,
  \<open>headers\<close>, \<open>payload\<close>, \<open>email_id\<close>, ...) is neither an array index nor a property that
  strings, numbers, booleans or arrays inherit, so only an object can answer it.
\<close>

fun opt_get :: "jsval \<Rightarrow> string \<Rightarrow> jsval" where
  "opt_get (JObj kvs) name = (case map_of kvs name of Some v \<Rightarrow> v | None \<Rightarrow> JUndefined)"
| "opt_get v name = JUndefined"

text \<open>\<open>typeof value === 'object'\<close> holds of objects, arrays and \<open>null\<close>.\<close>

fun typeof_object :: "jsval \<Rightarrow> bool" where
  "typeof_object (JObj kvs) = True"
| "typeof_object (JArr xs) = True"
| "typeof_object JNull = True"
| "typeof_object v = False"

text \<open>
  \<open>Object.entries\<close>: the keys of an array are its indices. The source calls it on objects
  and arrays only (\<open>getHeader\<close> returns before it for anything else).
\<close>

fun entries :: "jsval \<Rightarrow> (string \<times> jsval) list" where
  "entries (JObj kvs) = kvs"
| "entries (JArr xs) = zip (map nat_digits [0..<length xs]) xs"
| "entries v = []"

text \<open>
  The loop of \<open>getHeader\<close> over the entries: the first key that matches decides, an array
  value answering with its first element (\<open>undefined\<close> when it has none).
\<close>

fun first_if_array :: "jsval \<Rightarrow> jsval" where
  "first_if_array (JArr []) = JUndefined"
| "first_if_array (JArr (x # xs)) = x"
| "first_if_array v = v"

fun getHeader_loop :: "(string \<times> jsval) list \<Rightarrow> string \<Rightarrow> js_error + string" where
  "getHeader_loop [] wanted = Inr []"
| "getHeader_loop ((key, rawValue) # rest) wanted =
     (if toLowerCase key \<noteq> wanted then getHeader_loop rest wanted
      else cleanString (first_if_array rawValue))"

definition getHeader :: "jsval \<Rightarrow> string \<Rightarrow> js_error + string" where
  "getHeader headers headerName =
     (if \<not> truthy headers \<or> \<not> typeof_object headers then Inr []
      else getHeader_loop (entries headers) (toLowerCase headerName))"

text \<open>\<open>event?.request?.headers || event?.headers\<close>.\<close>

definition request_headers :: "jsval \<Rightarrow> jsval" where
  "request_headers event =
     js_or (opt_get (opt_get event ''request'') ''headers'') (opt_get event ''headers'')"

definition isAuthorizedRequest :: "jsval \<Rightarrow> jsval \<Rightarrow> js_error + bool" where
  "isAuthorizedRequest event expectedSecret =
     (case cleanString expectedSecret of
        Inl error \<Rightarrow> Inl error
      | Inr secret \<Rightarrow>
          if secret = [] then Inr False
          else case getHeader (request_headers event) ''x-webhook-secret'' of
                 Inl error \<Rightarrow> Inl error
               | Inr provided \<Rightarrow> Inr (provided = secret))"

text \<open>
  The object \<open>parsePayload\<close> builds, and the objects the tests hand to \<open>scorePayload\<close> and
  \<open>buildDedupeKey\<close>, which leave fields out: a field left out reads as \<open>undefined\<close>.
  The field \<open>from\<close> of the source is \<open>frm\<close> here.
\<close>

record payload =
  email_id :: jsval
  subject :: jsval
  frm :: jsval
  date :: jsval
  snippet :: jsval
  body :: jsval
  source :: jsval

definition payload_of :: "jsval \<Rightarrow> jsval" where
  "payload_of event =
     (if truthy (opt_get event ''payload'') \<and> typeof_object (opt_get event ''payload'')
      then opt_get event ''payload'' else event)"

text \<open>
  The value \<open>parsePayload\<close> cleans for the identifier:
  \<open>payload?.email_id || payload?.emailId || payload?.message_id\<close>.
\<close>

definition raw_identifier :: "jsval \<Rightarrow> jsval" where
  "raw_identifier p =
     js_or (js_or (opt_get p ''email_id'') (opt_get p ''emailId'')) (opt_get p ''message_id'')"

text \<open>
  \<open>parsePayload\<close> cleans the seven fields in the order of the object literal; the first
  \<open>cleanString\<close> that throws ends it.
\<close>

definition then_clean ::
  "jsval \<Rightarrow> (string \<Rightarrow> js_error + payload) \<Rightarrow> js_error + payload" where
  "then_clean v rest = (case cleanString v of Inl error \<Rightarrow> Inl error | Inr s \<Rightarrow> rest s)"

definition parsePayload :: "jsval \<Rightarrow> js_error + payload" where
  "parsePayload event =
     (let p = payload_of event
      in then_clean (raw_identifier p) (\<lambda>id_text.
         then_clean (opt_get p ''subject'') (\<lambda>subject_text.
         then_clean (opt_get p ''from'') (\<lambda>from_text.
         then_clean (opt_get p ''date'') (\<lambda>date_text.
         then_clean (opt_get p ''snippet'') (\<lambda>snippet_text.
         then_clean (opt_get p ''body'') (\<lambda>body_text.
         then_clean (opt_get p ''source'') (\<lambda>source_text.
           Inr \<lparr> email_id = JStr id_text,
                 subject = JStr subject_text,
                 frm = JStr from_text,
                 date = JStr date_text,
                 snippet = JStr snippet_text,
                 body = JStr body_text,
                 source = JStr (if source_text \<noteq> [] then source_text
                                else DEFAULT_SOURCE) \<rparr>))))))))"

subsection \<open>The threshold\<close>

text \<open>
  A JavaScript number as \<open>Number.parseInt\<close> can return it. A finite result is an integer;
  it is the nearest double to the integer written, which is that integer itself up to
  \<open>2 ^ 53\<close>. When the nearest double would be \<open>2 ^ 1024\<close> or more, which is so from
  \<open>2 ^ 1024 - 2 ^ 970\<close> on, the result is an infinity.
\<close>

datatype jsnum = NaN | Fin int | PosInfinity | NegInfinity

fun bit_length :: "nat \<Rightarrow> nat" where
  "bit_length n = (if n = 0 then 0 else Suc (bit_length (n div 2)))"

declare bit_length.simps [simp del]

text \<open>
  Rounding a natural number to the nearest double, ties to even: keep the 53 leading bits.
  \<open>None\<close> is the overflow. The subtraction is on \<^typ>\<open>nat\<close>: up to 53 bits nothing is cut.
\<close>

definition round_to_double :: "nat \<Rightarrow> nat option" where
  "round_to_double m =
     (let e = bit_length m - 53;
          q = m div 2 ^ e;
          r = m mod 2 ^ e;
          q' = (if 2 * r > 2 ^ e \<or> (2 * r = 2 ^ e \<and> odd q) then q + 1 else q);
          v = q' * 2 ^ e
      in if v \<ge> 2 ^ 1024 then None else Some v)"

definition is_digit :: "char \<Rightarrow> bool" where
  "is_digit c = (48 \<le> (of_char c :: nat) \<and> (of_char c :: nat) \<le> 57)"

definition digits_value :: "string \<Rightarrow> nat" where
  "digits_value z = foldl (\<lambda>acc c. 10 * acc + (of_char c - 48)) 0 z"

text \<open>
  \<open>Number.parseInt(raw, 10)\<close>: the string of the value, leading white space dropped, an
  optional sign, then the longest run of decimal digits. \<open>parse_digits\<close> gives the sign
  (\<open>True\<close> for a minus) and the integer the digits spell, \<open>None\<close> when there is no digit;
  \<open>parseInt10\<close> turns it into the number: no digit is \<open>NaN\<close>.
\<close>

definition parse_digits :: "string \<Rightarrow> (bool \<times> nat) option" where
  "parse_digits str =
     (let s = dropWhile is_ws str;
          neg = (s \<noteq> [] \<and> hd s = CHR ''-'');
          s' = (if s \<noteq> [] \<and> (hd s = CHR ''+'' \<or> hd s = CHR ''-'') then tl s else s);
          z = takeWhile is_digit s'
      in if z = [] then None else Some (neg, digits_value z))"

definition parseInt10 :: "jsval \<Rightarrow> jsnum" where
  "parseInt10 raw =
     (case parse_digits (toString raw) of
        None \<Rightarrow> NaN
      | Some (neg, m) \<Rightarrow>
          (case round_to_double m of
             None \<Rightarrow> (if neg then NegInfinity else PosInfinity)
           | Some v \<Rightarrow> Fin (if neg then - int v else int v)))"

text \<open>
  \<open>Number.isFinite(parsed)\<close> holds of the \<open>Fin\<close> results alone; the other three return the
  default, as a finite result that is not positive does.
\<close>

definition getDetectorThreshold :: "jsval \<Rightarrow> int" where
  "getDetectorThreshold raw =
     (case parseInt10 raw of
        Fin parsed \<Rightarrow> (if parsed \<le> 0 then DEFAULT_THRESHOLD else parsed)
      | notFinite \<Rightarrow> DEFAULT_THRESHOLD)"

subsection \<open>The detector\<close>

record score_result =
  score :: nat
  matched :: "string list"

fun score_loop :: "string \<Rightarrow> string list \<Rightarrow> score_result \<Rightarrow> score_result" where
  "score_loop text [] r = r"
| "score_loop text (keyword # rest) r =
     score_loop text rest
       (if str_includes text keyword
        then r\<lparr>score := score r + 1, matched := matched r @ [keyword]\<rparr>
        else r)"

text \<open>
  The template literal converts the three fields with \<open>String\<close>. The handler scores the
  payload that \<open>parsePayload\<close> has built, whose fields are strings, and the test scores
  strings: values for which \<open>String\<close> returns.
\<close>

definition scorePayload :: "payload \<Rightarrow> score_result" where
  "scorePayload p =
     score_loop
       (toLowerCase (toString (subject p) @ '' '' @ toString (snippet p) @ '' '' @ toString (body p)))
       KEYWORDS \<lparr>score = 0, matched = []\<rparr>"

subsection \<open>The dedupe key and the message\<close>

text \<open>
  \<open>hashText\<close> is the SHA-256 of \<open>node:crypto\<close>, in hexadecimal; the key builder takes it as
  its first argument. The fields are those of a payload that \<open>parsePayload\<close> has built, or
  of a test's object: values for which \<open>String\<close> returns, so that \<open>cleanString\<close> gives their
  \<open>trimmed_string\<close>.
\<close>

definition buildDedupeKey :: "(string \<Rightarrow> string) \<Rightarrow> payload \<Rightarrow> string" where
  "buildDedupeKey hashText p =
     (if truthy (email_id p) then ''email:'' @ toString (email_id p)
      else let excerptForHash = clip (js_or (snippet p) (body p)) 200;
               base = join ''|'' (map (\<lambda>item. toLowerCase (trimmed_string item))
                                      [frm p, subject p, date p, JStr excerptForHash])
           in ''hash:'' @ hashText base)"

text \<open>
  The first line of the message is \<open>Naukri Invite\<close> and a mark whose code units are above
  255, so the line is an argument here.
\<close>

definition or_placeholder :: "jsval \<Rightarrow> string \<Rightarrow> string" where
  "or_placeholder v placeholder = (if truthy v then toString v else placeholder)"

definition buildWhatsAppBody :: "string \<Rightarrow> payload \<Rightarrow> string" where
  "buildWhatsAppBody marker_line p =
     (let excerpt = clip (js_or (snippet p) (body p)) 300
      in join [CHR 0x0A]
           [marker_line,
            ''Subject: '' @ or_placeholder (subject p) ''(no subject)'',
            ''From: '' @ or_placeholder (frm p) ''(unknown sender)'',
            ''Date: '' @ or_placeholder (date p) ''(unknown date)'',
            ''Excerpt: '' @ (if excerpt \<noteq> [] then excerpt else ''(no excerpt)'')])"

section \<open>The store, the transport and the handler\<close>

text \<open>\<open>error?.status || error?.statusCode\<close>: a status of 0 is falsy as an absent one is.\<close>

definition status_or_statusCode :: "js_error \<Rightarrow> int option" where
  "status_or_statusCode error =
     (case status error of
        Some n \<Rightarrow> (if n \<noteq> 0 then Some n else statusCode error)
      | None \<Rightarrow> statusCode error)"

definition isTransientError :: "js_error \<Rightarrow> bool" where
  "isTransientError error =
     (case status_or_statusCode error of
        None \<Rightarrow> False
      | Some code \<Rightarrow> code = 429 \<or> (code \<ge> 500 \<and> code < 600))"

record service =
  sid :: string
  friendlyName :: string

record message_params =
  msg_from :: jsval
  msg_to :: jsval
  msg_body :: string

text \<open>
  The calls that leave the process, in the order they are made: listing the Sync services
  (with the limit asked for), creating one by name, fetching a document (service, key),
  creating one (service, key, time to live in seconds; its data, the time of creation,
  is left out), submitting a message. \<open>Sleep\<close> is the timer of \<open>sleep(ms)\<close>.
\<close>

datatype call =
    ListServices nat
  | CreateService string
  | FetchDocument string string
  | CreateDocument string string nat
  | CreateMessage message_params
  | Sleep nat

fun is_CreateMessage :: "call \<Rightarrow> bool" where
  "is_CreateMessage (CreateMessage params) = True"
| "is_CreateMessage c = False"

definition transport_calls :: "call list \<Rightarrow> nat" where
  "transport_calls cs = length (filter is_CreateMessage cs)"

text \<open>
  The outside world of one request: what each call answers. A Sync document is addressed
  by service and key; the transport answers by the number of messages submitted before,
  so that a retry can fare differently from the first attempt. \<open>invite_marker\<close> is the first
  line of the message and \<open>sha256_hex\<close> the hash of \<open>node:crypto\<close>.
\<close>

record externals =
  sha256_hex :: "string \<Rightarrow> string"
  invite_marker :: string
  new_client :: "jsval \<Rightarrow> jsval \<Rightarrow> js_error option"
  services_list :: "js_error + service list"
  services_create :: "string \<Rightarrow> js_error + service"
  documents_fetch :: "string \<Rightarrow> string \<Rightarrow> js_error option"
  documents_create :: "string \<Rightarrow> string \<Rightarrow> nat \<Rightarrow> js_error option"
  messages_create :: "nat \<Rightarrow> message_params \<Rightarrow> js_error + string"

text \<open>The state a request changes: the calls made and the module's cached service id.\<close>

record state =
  calls :: "call list"
  cachedSyncServiceSid :: "string option"

definition record_call :: "call \<Rightarrow> state \<Rightarrow> state" where
  "record_call c st = st\<lparr>calls := calls st @ [c]\<rparr>"

text \<open>
  The context of the function holds the environment: a variable is a string, or is not
  set (\<open>None\<close>) and reads as \<open>undefined\<close>. \<open>String\<close> never throws on either, so \<open>cleanString\<close>
  returns on every value read from the context.
\<close>

type_synonym function_context = "string \<Rightarrow> string option"

fun env_value :: "string option \<Rightarrow> jsval" where
  "env_value None = JUndefined"
| "env_value (Some s) = JStr s"

definition sendWithRetry ::
  "externals \<Rightarrow> message_params \<Rightarrow> state \<Rightarrow> (js_error + string) \<times> state" where
  "sendWithRetry ex params st =
     (let st1 = record_call (CreateMessage params) st
      in case messages_create ex (transport_calls (calls st)) params of
           Inr message \<Rightarrow> (Inr message, st1)
         | Inl error \<Rightarrow>
             if \<not> isTransientError error then (Inl error, st1)
             else let st2 = record_call (Sleep SEND_RETRY_DELAY_MS) st1;
                      st3 = record_call (CreateMessage params) st2
                  in (messages_create ex (transport_calls (calls st2)) params, st3))"

text \<open>
  \<open>resolveSyncServiceSid\<close> after its two early returns: list the services, take the one
  with the fixed name, else the first, else create one; the result is cached.
\<close>

definition list_and_pick_service :: "externals \<Rightarrow> state \<Rightarrow> (js_error + string) \<times> state" where
  "list_and_pick_service ex st =
     (let st1 = record_call (ListServices 20) st
      in case services_list ex of
           Inl error \<Rightarrow> (Inl error, st1)
         | Inr services \<Rightarrow>
             (case find (\<lambda>svc. friendlyName svc = SYNC_SERVICE_NAME) services of
                Some match \<Rightarrow> (Inr (sid match), st1\<lparr>cachedSyncServiceSid := Some (sid match)\<rparr>)
              | None \<Rightarrow>
                  (case services of
                     first # others \<Rightarrow>
                       (Inr (sid first), st1\<lparr>cachedSyncServiceSid := Some (sid first)\<rparr>)
                   | [] \<Rightarrow>
                       (let st2 = record_call (CreateService SYNC_SERVICE_NAME) st1
                        in case services_create ex SYNC_SERVICE_NAME of
                             Inl error \<Rightarrow> (Inl error, st2)
                           | Inr created \<Rightarrow>
                               (Inr (sid created),
                                st2\<lparr>cachedSyncServiceSid := Some (sid created)\<rparr>)))))"

text \<open>The cache holds \<open>null\<close> (\<open>None\<close>) or an id; an empty id is falsy as \<open>null\<close> is.\<close>

definition resolveSyncServiceSid ::
  "externals \<Rightarrow> function_context \<Rightarrow> state \<Rightarrow> (js_error + string) \<times> state" where
  "resolveSyncServiceSid ex ctx st =
     (case cleanString (env_value (ctx ''TWILIO_SYNC_SERVICE_SID'')) of
        Inl error \<Rightarrow> (Inl error, st)
      | Inr provided \<Rightarrow>
          if provided \<noteq> [] then (Inr provided, st)
          else case cachedSyncServiceSid st of
                 Some cached \<Rightarrow>
                   (if cached \<noteq> [] then (Inr cached, st) else list_and_pick_service ex st)
               | None \<Rightarrow> list_and_pick_service ex st)"

definition markAsProcessedIfNew ::
  "externals \<Rightarrow> function_context \<Rightarrow> string \<Rightarrow> state \<Rightarrow> (js_error + bool) \<times> state" where
  "markAsProcessedIfNew ex ctx dedupeKey st =
     (case resolveSyncServiceSid ex ctx st of
        (Inl error, st1) \<Rightarrow> (Inl error, st1)
      | (Inr serviceSid, st1) \<Rightarrow>
          (let st2 = record_call (FetchDocument serviceSid dedupeKey) st1
           in case documents_fetch ex serviceSid dedupeKey of
                None \<Rightarrow> (Inr False, st2)
              | Some error \<Rightarrow>
                  if status error \<noteq> Some 404 then (Inl error, st2)
                  else let st3 = record_call
                                   (CreateDocument serviceSid dedupeKey DEDUPE_TTL_SECONDS) st2
                       in case documents_create ex serviceSid dedupeKey DEDUPE_TTL_SECONDS of
                            None \<Rightarrow> (Inr True, st3)
                          | Some error2 \<Rightarrow>
                              if status error2 = Some 409 then (Inr False, st3)
                              else (Inl error2, st3)))"

record send_config =
  ok :: bool
  missing :: "string list"

definition assertSendConfig :: "function_context \<Rightarrow> send_config" where
  "assertSendConfig ctx =
     (let requiredVars = [''TWILIO_ACCOUNT_SID'', ''TWILIO_AUTH_TOKEN'',
                          ''TWILIO_WHATSAPP_FROM'', ''TWILIO_WHATSAPP_TO''];
          missing_vars = filter (\<lambda>key. cleanString (env_value (ctx key)) = Inr []) requiredVars
      in \<lparr>ok = (length missing_vars = 0), missing = missing_vars\<rparr>)"

text \<open>
  A response: the status and the object handed to \<open>JSON.stringify\<close>. The two headers are
  the same on every response.
\<close>

record response =
  res_statusCode :: nat
  res_headers :: "(string \<times> string) list"
  res_body :: jsval

definition createJsonResponse :: "nat \<Rightarrow> jsval \<Rightarrow> response" where
  "createJsonResponse code bodyObj =
     \<lparr>res_statusCode = code,
      res_headers = [(''Content-Type'', ''application/json''), (''Cache-Control'', ''no-store'')],
      res_body = bodyObj\<rparr>"

definition unauthorized_response :: response where
  "unauthorized_response =
     createJsonResponse 401 (JObj [(''ok'', JBool False), (''error'', JStr ''unauthorized'')])"

definition ignored_response :: "nat \<Rightarrow> response" where
  "ignored_response n =
     createJsonResponse 200
       (JObj [(''ok'', JBool True), (''action'', JStr ''ignored''), (''score'', JNum (of_nat n))])"

definition missing_env_response :: response where
  "missing_env_response =
     createJsonResponse 500 (JObj [(''ok'', JBool False), (''error'', JStr ''missing_env'')])"

definition deduped_response :: response where
  "deduped_response =
     createJsonResponse 200 (JObj [(''ok'', JBool True), (''action'', JStr ''deduped'')])"

definition sent_response :: "string \<Rightarrow> response" where
  "sent_response message_sid =
     createJsonResponse 200
       (JObj [(''ok'', JBool True), (''action'', JStr ''sent''), (''sid'', JStr message_sid)])"

definition internal_error_response :: response where
  "internal_error_response =
     createJsonResponse 500 (JObj [(''ok'', JBool False), (''error'', JStr ''internal_error'')])"

text \<open>
  The handler. Whatever is thrown inside its \<open>try\<close>, by a call to the outside or by
  \<open>isAuthorizedRequest\<close> and \<open>parsePayload\<close>, is caught at the top and answered with
  \<open>internal_error\<close>; the lines written to the console are left out. \<open>scorePayload\<close>,
  \<open>buildDedupeKey\<close> and \<open>buildWhatsAppBody\<close> get the payload that \<open>parsePayload\<close> has built,
  whose fields are strings.
\<close>

definition handler ::
  "externals \<Rightarrow> function_context \<Rightarrow> jsval \<Rightarrow> state \<Rightarrow> response \<times> state" where
  "handler ex ctx event st =
     (case isAuthorizedRequest event (env_value (ctx ''WEBHOOK_SECRET'')) of
        Inl error \<Rightarrow> (internal_error_response, st)
      | Inr authorized \<Rightarrow>
          if \<not> authorized then (unauthorized_response, st)
          else case parsePayload event of
            Inl error \<Rightarrow> (internal_error_response, st)
          | Inr p \<Rightarrow>
             (let threshold = getDetectorThreshold (env_value (ctx ''DETECTOR_THRESHOLD''));
                  n = score (scorePayload p)
              in if int n < threshold then (ignored_response n, st)
                 else if \<not> ok (assertSendConfig ctx) then (missing_env_response, st)
                 else case new_client ex (env_value (ctx ''TWILIO_ACCOUNT_SID''))
                                         (env_value (ctx ''TWILIO_AUTH_TOKEN'')) of
                     Some error \<Rightarrow> (internal_error_response, st)
                   | None \<Rightarrow>
                       (let dedupeKey = buildDedupeKey (sha256_hex ex) p
                        in case markAsProcessedIfNew ex ctx dedupeKey st of
                             (Inl error, st1) \<Rightarrow> (internal_error_response, st1)
                           | (Inr isNew, st1) \<Rightarrow>
                               if \<not> isNew then (deduped_response, st1)
                               else case sendWithRetry ex
                                           \<lparr>msg_from = env_value (ctx ''TWILIO_WHATSAPP_FROM''),
                                            msg_to = env_value (ctx ''TWILIO_WHATSAPP_TO''),
                                            msg_body = buildWhatsAppBody (invite_marker ex) p\<rparr>
                                           st1 of
                                      (Inl error, st2) \<Rightarrow> (internal_error_response, st2)
                                    | (Inr message_sid, st2) \<Rightarrow>
                                        (sent_response message_sid, st2))))"

section \<open>Inputs used as examples\<close>

text \<open>The payload of the detector's unit test.\<close>

definition example_payload :: payload where
  "example_payload =
     \<lparr>email_id = JUndefined,
      subject = JStr ''Interview invite from recruiter on Naukri'',
      frm = JUndefined,
      date = JUndefined,
      snippet = JStr ''Please schedule a zoom call and selection process discussion'',
      body = JStr ''HR shared date and time for assessment'',
      source = JUndefined\<rparr>"

text \<open>A threshold setting of 310 digits: the number \<open>10 ^ 309\<close>, above every finite double.\<close>

definition huge_threshold :: string where
  "huge_threshold =
     ''1000000000000000000000000000000000000000000000000000000000000000000000000000000000000000000000000000000000000000000000000000000000000000000000000000000000000000000000000000000000000000000000000000000000000000000000000000000000000000000000000000000000000000000000000000000000000000000000000000000000000000000000''"

text \<open>
  A request whose secret header is padded with spaces, one whose secret header is an
  object with an own \<open>toString\<close> entry, and three payloads for the identifier aliases: an
  empty \<open>email_id\<close>, one of two spaces, and one that \<open>String\<close> cannot convert.
\<close>

definition object_secret_event :: jsval where
  "object_secret_event =
     JObj [(''headers'', JObj [(''x-webhook-secret'', JObj [(''toString'', JBool True)])])]"

definition object_id_event :: jsval where
  "object_id_event =
     JObj [(''email_id'', JObj [(''toString'', JBool True)]), (''emailId'', JStr ''abc'')]"

definition padded_secret_event :: jsval where
  "padded_secret_event =
     JObj [(''headers'', JObj [(''X-Webhook-Secret'', JStr '' s3cret '')])]"

definition empty_id_event :: jsval where
  "empty_id_event = JObj [(''email_id'', JStr []), (''emailId'', JStr ''abc'')]"

definition blank_id_event :: jsval where
  "blank_id_event =
     JObj [(''payload'',
            JObj [(''email_id'', JStr ''  ''), (''emailId'', JStr ''abc''),
                  (''message_id'', JStr ''m-1'')])]"

text \<open>The seven values that \<open>parsePayload\<close> cleans, in its order.\<close>

definition payload_fields :: "jsval \<Rightarrow> jsval list" where
  "payload_fields p =
     [raw_identifier p, opt_get p ''subject'', opt_get p ''from'', opt_get p ''date'',
      opt_get p ''snippet'', opt_get p ''body'', opt_get p ''source'']"

text \<open>The payloads of the dedupe key's unit tests, and the second in capitals.\<close>

definition id_payload :: payload where
  "id_payload =
     \<lparr>email_id = JStr ''18f9f4f2'', subject = JStr ''Interview'',
      frm = JStr ''noreply@naukri.com'', date = JStr ''2026-01-01'',
      snippet = JUndefined, body = JUndefined, source = JUndefined\<rparr>"

definition hash_payload :: payload where
  "hash_payload =
     \<lparr>email_id = JUndefined, subject = JStr ''Shortlisted'',
      frm = JStr ''hr@company.com'', date = JStr ''Sun, 01 Jan 2026 10:00:00 +0530'',
      snippet = JStr ''Invite for zoom call and assessment'', body = JUndefined,
      source = JUndefined\<rparr>"

definition hash_payload_capitals :: payload where
  "hash_payload_capitals =
     \<lparr>email_id = JUndefined, subject = JStr ''SHORTLISTED'',
      frm = JStr ''HR@Company.COM'', date = JStr ''SUN, 01 JAN 2026 10:00:00 +0530'',
      snippet = JStr ''INVITE for Zoom call and ASSESSMENT'', body = JStr ''other'',
      source = JUndefined\<rparr>"

text \<open>
  Two values with the same lower-case form: two strings that \<open>toLowerCase\<close> makes equal,
  or the same value.
\<close>

fun same_up_to_case :: "jsval \<Rightarrow> jsval \<Rightarrow> bool" where
  "same_up_to_case (JStr a) (JStr b) = (toLowerCase a = toLowerCase b)"
| "same_up_to_case x y = (x = y)"

text \<open>
  \<open>String.prototype.toUpperCase\<close> on a string of the code units 0..255, as a list of code
  units: the small letters a..z and 0xE0..0xFE (0xF7, the division sign, is not a letter)
  move down by 32; the sharp s (0xDF) becomes the two letters SS; the capitals of the
  micro sign (0xB5) and of the y with diaeresis (0xFF) are the code units 0x39C and 0x178.
\<close>

definition upper_units :: "char \<Rightarrow> nat list" where
  "upper_units c =
     (let n = (of_char c :: nat)
      in if (97 \<le> n \<and> n \<le> 122) \<or> (224 \<le> n \<and> n \<le> 254 \<and> n \<noteq> 247) then [n - 32]
         else if n = 223 then [83, 83]
         else if n = 181 then [924]
         else if n = 255 then [376]
         else [n])"

definition toUpperCase :: "string \<Rightarrow> nat list" where
  "toUpperCase s = concat (map upper_units s)"

text \<open>
  Two payloads without identifier whose subjects are one word in its two cases: the
  German \<open>Strasse\<close> written with the sharp s, and in capitals.
\<close>

definition strasse_payload :: payload where
  "strasse_payload =
     \<lparr>email_id = JStr [], subject = JStr (''Stra'' @ [CHR 0xDF] @ ''e''),
      frm = JStr ''hr@company.com'', date = JStr ''2026-01-01'',
      snippet = JStr ''Interview'', body = JStr [], source = JStr ''Gmail/Naukri''\<rparr>"

definition strasse_payload_capitals :: payload where
  "strasse_payload_capitals =
     \<lparr>email_id = JStr [], subject = JStr ''STRASSE'',
      frm = JStr ''hr@company.com'', date = JStr ''2026-01-01'',
      snippet = JStr ''Interview'', body = JStr [], source = JStr ''Gmail/Naukri''\<rparr>"

text \<open>
  Worlds for the handler. An error of the Twilio client with a status; a context built
  from the variables that are set; the state of a fresh process.
\<close>

definition api_error :: "int \<Rightarrow> js_error" where
  "api_error code = \<lparr>status = Some code, statusCode = None\<rparr>"

definition context_of :: "(string \<times> string) list \<Rightarrow> function_context" where
  "context_of vars = map_of vars"

definition initial_state :: state where
  "initial_state = \<lparr>calls = [], cachedSyncServiceSid = None\<rparr>"

text \<open>
  \<open>duplicate_world\<close>: one Sync service with the fixed name, every key already stored.
  \<open>flaky_world\<close>: no key stored, and the transport answers 503 to the first submission
  and accepts the second. The hash is not consulted in the examples, which carry an
  identifier.
\<close>

definition duplicate_world :: externals where
  "duplicate_world =
     \<lparr>sha256_hex = (\<lambda>base. []),
      invite_marker = ''Naukri Invite'',
      new_client = (\<lambda>account_sid auth_token. None),
      services_list = Inr [\<lparr>sid = ''IS1'', friendlyName = SYNC_SERVICE_NAME\<rparr>],
      services_create = (\<lambda>name. Inr \<lparr>sid = ''IS2'', friendlyName = name\<rparr>),
      documents_fetch = (\<lambda>serviceSid key. None),
      documents_create = (\<lambda>serviceSid key ttl. Some (api_error 409)),
      messages_create = (\<lambda>n params. Inr ''SM1'')\<rparr>"

definition flaky_world :: externals where
  "flaky_world =
     \<lparr>sha256_hex = (\<lambda>base. []),
      invite_marker = ''Naukri Invite'',
      new_client = (\<lambda>account_sid auth_token. None),
      services_list = Inr [\<lparr>sid = ''IS1'', friendlyName = SYNC_SERVICE_NAME\<rparr>],
      services_create = (\<lambda>name. Inr \<lparr>sid = ''IS2'', friendlyName = name\<rparr>),
      documents_fetch = (\<lambda>serviceSid key. Some (api_error 404)),
      documents_create = (\<lambda>serviceSid key ttl. None),
      messages_create = (\<lambda>n params. if n = 0 then Inl (api_error 503) else Inr ''SM2'')\<rparr>"

definition unconfigured_context :: function_context where
  "unconfigured_context = context_of [(''WEBHOOK_SECRET'', ''s3cret'')]"

definition configured_context :: function_context where
  "configured_context =
     context_of [(''WEBHOOK_SECRET'', ''s3cret''), (''TWILIO_ACCOUNT_SID'', ''AC1''),
                 (''TWILIO_AUTH_TOKEN'', ''token''), (''TWILIO_WHATSAPP_FROM'', ''whatsapp:+1''),
                 (''TWILIO_WHATSAPP_TO'', ''whatsapp:+2'')]"

text \<open>
  An authorized invite (three keywords), an authorized message with no keyword, and an
  authorized message whose subject \<open>String\<close> cannot convert.
\<close>

definition object_subject_event :: jsval where
  "object_subject_event =
     JObj [(''request'', JObj [(''headers'', JObj [(''x-webhook-secret'', JStr ''s3cret'')])]),
           (''email_id'', JStr ''m3''),
           (''subject'', JObj [(''toString'', JBool True)])]"

definition invite_event :: jsval where
  "invite_event =
     JObj [(''request'', JObj [(''headers'', JObj [(''x-webhook-secret'', JStr ''s3cret'')])]),
           (''email_id'', JStr ''m1''),
           (''subject'', JStr ''Interview invite from recruiter'')]"

definition newsletter_event :: jsval where
  "newsletter_event =
     JObj [(''request'', JObj [(''headers'', JObj [(''x-webhook-secret'', JStr ''s3cret'')])]),
           (''email_id'', JStr ''m2''),
           (''subject'', JStr ''Weekly news'')]"

definition example_params :: message_params where
  "example_params =
     \<lparr>msg_from = JStr ''whatsapp:+1'', msg_to = JStr ''whatsapp:+2'', msg_body = ''hello''\<rparr>"

text \<open>
  A request passes the gate with the payload \<open>p\<close> when it is authorized, is normalized to
  \<open>p\<close>, scores at least the threshold, finds the four delivery variables set and gets its
  client: the store is consulted next.
\<close>

definition passes_gate :: "externals \<Rightarrow> function_context \<Rightarrow> jsval \<Rightarrow> payload \<Rightarrow> bool" where
  "passes_gate ex ctx event p =
     (isAuthorizedRequest event (env_value (ctx ''WEBHOOK_SECRET'')) = Inr True
      \<and> parsePayload event = Inr p
      \<and> \<not> int (score (scorePayload p))
            < getDetectorThreshold (env_value (ctx ''DETECTOR_THRESHOLD''))
      \<and> ok (assertSendConfig ctx)
      \<and> new_client ex (env_value (ctx ''TWILIO_ACCOUNT_SID''))
           (env_value (ctx ''TWILIO_AUTH_TOKEN'')) = None)"

text \<open>The payloads that \<open>parsePayload\<close> builds from the two example requests.\<close>

definition invite_payload :: payload where
  "invite_payload =
     \<lparr>email_id = JStr ''m1'', subject = JStr ''Interview invite from recruiter'',
      frm = JStr [], date = JStr [], snippet = JStr [], body = JStr [],
      source = JStr ''Gmail/Naukri''\<rparr>"

definition newsletter_payload :: payload where
  "newsletter_payload =
     \<lparr>email_id = JStr ''m2'', subject = JStr ''Weekly news'',
      frm = JStr [], date = JStr [], snippet = JStr [], body = JStr [],
      source = JStr ''Gmail/Naukri''\<rparr>"

section \<open>Strings\<close>

lemma char_of_bits:
  "char_of (n::nat) = Char (odd n) (odd (n div 2)) (odd (n div 4)) (odd (n div 8))
     (odd (n div 16)) (odd (n div 32)) (odd (n div 64)) (odd (n div 128))"
  by (simp add: char_of_def bit_iff_odd)

lemma of_char_lower_char:
  "(of_char (lower_char c) :: nat) =
     (if (65 \<le> (of_char c :: nat) \<and> (of_char c :: nat) \<le> 90)
         \<or> (192 \<le> (of_char c :: nat) \<and> (of_char c :: nat) \<le> 222 \<and> (of_char c :: nat) \<noteq> 215)
      then of_char c + 32 else of_char c)"
  by (simp add: lower_char_def Let_def)

lemma is_ws_lower_char: "is_ws (lower_char c) = is_ws c"
  unfolding is_ws_def of_char_lower_char by auto

lemma dropWhile_ws_lower:
  "dropWhile is_ws (toLowerCase s) = toLowerCase (dropWhile is_ws s)"
  by (induction s) (simp_all add: toLowerCase_def is_ws_lower_char)

lemma toLowerCase_rev: "toLowerCase (rev s) = rev (toLowerCase s)"
  by (simp add: toLowerCase_def rev_map)

lemma toLowerCase_trim: "toLowerCase (trim s) = trim (toLowerCase s)"
proof -
  have "trim (toLowerCase s) = rev (dropWhile is_ws (rev (toLowerCase (dropWhile is_ws s))))"
    by (simp add: trim_def dropWhile_ws_lower)
  also have "\<dots> = rev (dropWhile is_ws (toLowerCase (rev (dropWhile is_ws s))))"
    by (simp only: toLowerCase_rev)
  also have "\<dots> = rev (toLowerCase (dropWhile is_ws (rev (dropWhile is_ws s))))"
    by (simp only: dropWhile_ws_lower)
  also have "\<dots> = toLowerCase (trim s)"
    by (simp only: toLowerCase_rev trim_def)
  finally show ?thesis by simp
qed

lemma toLowerCase_take: "toLowerCase (take n s) = take n (toLowerCase s)"
  by (simp add: toLowerCase_def take_map)

lemma toLowerCase_empty: "toLowerCase s = [] \<longleftrightarrow> s = []"
  by (simp add: toLowerCase_def)

lemma trim_all_ws:
  assumes "list_all is_ws w"
  shows "trim w = []"
proof -
  have "\<forall>c\<in>set w. is_ws c"
    using assms by (simp add: list_all_iff)
  then have d: "dropWhile is_ws w = []"
    by (simp only: dropWhile_eq_Nil_conv)
  show ?thesis unfolding trim_def d by simp
qed

lemma trimmed_string_JStr: "trimmed_string (JStr s) = trim s"
  by (simp add: trimmed_string_def)

lemma clip_take: "clip v n = take n (trimmed_string v)"
  by (simp add: clip_def Let_def)

text \<open>\<open>cleanString\<close> returns exactly when \<open>String\<close> does, and then the trimmed string.\<close>

lemma String_throws_null: "v = JNull \<or> v = JUndefined \<Longrightarrow> \<not> String_throws v"
  by auto

lemma cleanString_returns:
  assumes "\<not> String_throws v"
  shows "cleanString v = Inr (trimmed_string v)"
  using assms by (simp add: cleanString_def trimmed_string_def)

lemma cleanString_throws:
  assumes "String_throws v"
  shows "cleanString v = Inl TypeError"
  using assms String_throws_null [of v] by (auto simp: cleanString_def)

lemma cleanString_Inr:
  assumes "cleanString v = Inr s"
  shows "s = trimmed_string v"
  using assms by (auto simp: cleanString_def trimmed_string_def split: if_splits)

lemma cleanString_JStr: "cleanString (JStr s) = Inr (trim s)"
  by (simp add: cleanString_def)

lemma cleanString_env:
  "cleanString (env_value x) = Inr (case x of None \<Rightarrow> [] | Some s \<Rightarrow> trim s)"
  by (cases x) (simp_all add: cleanString_def)

section \<open>The detector\<close>

lemma score_loop_matched:
  "matched (score_loop t ks r) = matched r @ filter (str_includes t) ks"
  by (induction ks arbitrary: r) simp_all

lemma score_loop_score:
  "score (score_loop t ks r) = score r + length (filter (str_includes t) ks)"
  by (induction ks arbitrary: r) simp_all

lemma distinct_KEYWORDS: "distinct KEYWORDS"
  by (simp add: KEYWORDS_def)

lemma length_KEYWORDS: "length KEYWORDS = 15"
  by (simp add: KEYWORDS_def)

text \<open>
  Claim C9. For every payload, the matched keywords are a duplicate-free subsequence of
  the keyword table, in table order; the score is the length of that list, and so it is
  at most 15, the size of the table.
\<close>

theorem scorePayload_matched_invariant:
  "subseq (matched (scorePayload p)) KEYWORDS
   \<and> distinct (matched (scorePayload p))
   \<and> score (scorePayload p) = length (matched (scorePayload p))
   \<and> score (scorePayload p) \<le> 15"
proof -
  let ?t = "toLowerCase (toString (subject p) @ '' '' @ toString (snippet p) @ '' ''
              @ toString (body p))"
  have m: "matched (scorePayload p) = filter (str_includes ?t) KEYWORDS"
    by (simp add: scorePayload_def score_loop_matched)
  have s: "score (scorePayload p) = length (filter (str_includes ?t) KEYWORDS)"
    by (simp add: scorePayload_def score_loop_score)
  have "length (filter (str_includes ?t) KEYWORDS) \<le> length KEYWORDS"
    by (rule length_filter_le)
  then have b: "score (scorePayload p) \<le> 15"
    using s length_KEYWORDS by simp
  have d: "distinct (filter (str_includes ?t) KEYWORDS)"
    using distinct_KEYWORDS by (rule distinct_filter)
  show ?thesis
    using m s b d by simp
qed

lemma example_text:
  "toLowerCase (toString (subject example_payload) @ '' '' @ toString (snippet example_payload)
     @ '' '' @ toString (body example_payload))
   = ''interview invite from recruiter on naukri please schedule a zoom call and selection process discussion hr shared date and time for assessment''"
  by (simp add: example_payload_def toLowerCase_def lower_char_def char_of_bits)

lemma example_result:
  "scorePayload example_payload =
     \<lparr>score = 12,
      matched = [''interview'', ''schedule'', ''assessment'', ''recruiter'', ''hr'',
                 ''selection process'', ''invite'', ''naukri'', ''call'', ''zoom'', ''date'',
                 ''time'']\<rparr>"
  unfolding scorePayload_def example_text by (simp add: KEYWORDS_def)

text \<open>
  Claim C8. On the payload of the unit test (subject "Interview invite from recruiter on
  Naukri", snippet "Please schedule a zoom call and selection process discussion", body
  "HR shared date and time for assessment") the score is at least 8 (it is 12) and the
  matched keywords contain "interview", "zoom" and "assessment".
\<close>

theorem scorePayload_example:
  "8 \<le> score (scorePayload example_payload)
   \<and> score (scorePayload example_payload) = 12
   \<and> ''interview'' \<in> set (matched (scorePayload example_payload))
   \<and> ''zoom'' \<in> set (matched (scorePayload example_payload))
   \<and> ''assessment'' \<in> set (matched (scorePayload example_payload))"
  by (simp add: example_result)

section \<open>The threshold\<close>

lemma bit_length_le: "bit_length m \<le> k \<longleftrightarrow> m < 2 ^ k"
proof (induction m arbitrary: k rule: bit_length.induct)
  case (1 n)
  show ?case
  proof (cases "n = 0")
    case True
    then show ?thesis by (simp add: bit_length.simps)
  next
    case False
    note nz = False
    show ?thesis
    proof (cases k)
      case 0
      with nz show ?thesis by (simp add: bit_length.simps)
    next
      case (Suc j)
      have "bit_length n = Suc (bit_length (n div 2))"
        using nz by (simp add: bit_length.simps)
      moreover have "bit_length (n div 2) \<le> j \<longleftrightarrow> n div 2 < 2 ^ j"
        using "1.IH" [OF nz] .
      moreover have "n div 2 < 2 ^ j \<longleftrightarrow> n < 2 ^ Suc j"
        by auto
      ultimately show ?thesis using Suc by simp
    qed
  qed
qed

lemma bit_length_lower:
  assumes "0 < m"
  shows "2 ^ (bit_length m - 1) \<le> m"
proof -
  have "\<not> bit_length m \<le> 0"
    unfolding bit_length_le using assms by simp
  then have "\<not> bit_length m \<le> bit_length m - 1" by simp
  then show ?thesis unfolding bit_length_le by simp
qed

text \<open>Up to \<open>2 ^ 53\<close> a natural number is a double.\<close>

lemma round_to_double_exact:
  assumes "m \<le> 2 ^ 53"
  shows "round_to_double m = Some m"
proof (cases "m < 2 ^ 53")
  case True
  then have "bit_length m \<le> 53" by (simp add: bit_length_le)
  then have e: "bit_length m - 53 = 0" by simp
  have "m < (2::nat) ^ 1024"
    using True by (rule less_trans) simp
  then show ?thesis
    by (simp add: round_to_double_def e Let_def)
next
  case False
  with assms have m: "m = 2 ^ 53" by simp
  have "bit_length m \<le> 54" unfolding bit_length_le m by simp
  moreover have "\<not> bit_length m \<le> 53" unfolding bit_length_le m by simp
  ultimately have e: "bit_length m - 53 = 1" by simp
  show ?thesis
    unfolding round_to_double_def e Let_def by (simp add: m)
qed

text \<open>From \<open>2 ^ 1024\<close> on the rounding overflows.\<close>

lemma round_to_double_overflow:
  assumes "2 ^ 1024 \<le> m"
  shows "round_to_double m = None"
proof -
  define L where "L = bit_length m"
  have "\<not> m < 2 ^ 1024" using assms by simp
  then have "\<not> L \<le> 1024" unfolding L_def bit_length_le .
  then have L: "1025 \<le> L" by simp
  have "0 < m" using assms by (simp add: less_le_trans [of 0 "2 ^ 1024"])
  then have low: "2 ^ (L - 1) \<le> m" unfolding L_def by (rule bit_length_lower)
  define e where "e = L - 53"
  have split: "L - 1 = 52 + e" using L by (simp add: e_def)
  have "(2::nat) ^ 52 * 2 ^ e \<le> m" using low unfolding split by (simp add: power_add)
  then have q: "2 ^ 52 \<le> m div 2 ^ e"
    by (simp add: less_eq_div_iff_mult_less_eq)
  have e972: "972 \<le> e" using L by (simp add: e_def)
  have "(2::nat) ^ 1024 = 2 ^ 52 * 2 ^ 972" by (simp flip: power_add)
  also have "\<dots> \<le> 2 ^ 52 * 2 ^ e"
  proof (rule mult_le_mono2)
    show "(2::nat) ^ 972 \<le> 2 ^ e" using e972 by (rule power_increasing) simp
  qed
  also have "\<dots> \<le> (m div 2 ^ e) * 2 ^ e" using q by simp
  finally have base: "(2::nat) ^ 1024 \<le> (m div 2 ^ e) * 2 ^ e" .
  then have up: "(2::nat) ^ 1024 \<le> (m div 2 ^ e + 1) * 2 ^ e"
    by (simp add: add_mult_distrib)
  show ?thesis
    unfolding round_to_double_def Let_def L_def [symmetric] e_def [symmetric]
    using base up by (simp del: power_numeral)
qed

text \<open>A positive number rounds to a positive double.\<close>

lemma round_to_double_positive:
  assumes "0 < m" and "round_to_double m = Some d"
  shows "0 < d"
proof -
  define e where "e = bit_length m - 53"
  have "e \<le> bit_length m - 1" by (simp add: e_def)
  then have "(2::nat) ^ e \<le> 2 ^ (bit_length m - 1)"
    by (rule power_increasing) simp
  also have "\<dots> \<le> m" using assms(1) by (rule bit_length_lower)
  finally have "2 ^ e \<le> m" .
  then have q: "0 < m div 2 ^ e"
    by (simp add: div_greater_zero_iff)
  have "d = (m div 2 ^ e) * 2 ^ e \<or> d = (m div 2 ^ e + 1) * 2 ^ e"
    using assms(2) unfolding round_to_double_def Let_def e_def [symmetric]
    by (auto split: if_splits)
  then show ?thesis using q by auto
qed

lemma getDetectorThreshold_unsigned:
  assumes "parse_digits (toString raw) = Some (False, m)" and "0 < m"
  shows "getDetectorThreshold raw = (case round_to_double m of None \<Rightarrow> 3 | Some d \<Rightarrow> int d)"
proof (cases "round_to_double m")
  case None
  then show ?thesis
    using assms by (simp add: getDetectorThreshold_def parseInt10_def DEFAULT_THRESHOLD_def)
next
  case (Some d)
  then have "0 < d" using assms(2) by (simp add: round_to_double_positive)
  then show ?thesis
    using assms Some by (simp add: getDetectorThreshold_def parseInt10_def)
qed

lemma getDetectorThreshold_not_positive:
  assumes "parse_digits (toString raw) = Some (neg, m)" and "neg \<or> m = 0"
  shows "getDetectorThreshold raw = 3"
proof (cases "round_to_double m")
  case None
  then show ?thesis
    using assms by (simp add: getDetectorThreshold_def parseInt10_def DEFAULT_THRESHOLD_def)
next
  case (Some d)
  show ?thesis
  proof (cases neg)
    case True
    then show ?thesis
      using assms Some by (simp add: getDetectorThreshold_def parseInt10_def DEFAULT_THRESHOLD_def)
  next
    case False
    with assms have "m = 0" by simp
    then have "d = 0" using Some round_to_double_exact [of 0] by simp
    then show ?thesis
      using assms Some by (simp add: getDetectorThreshold_def parseInt10_def DEFAULT_THRESHOLD_def)
  qed
qed

lemma parse_digits_examples:
  "parse_digits ''undefined'' = None"
  "parse_digits ''abc'' = None"
  "parse_digits ''0'' = Some (False, 0)"
  "parse_digits ''5'' = Some (False, 5)"
  "parse_digits ''px'' = None"
  "parse_digits ''-4'' = Some (True, 4)"
  "parse_digits '' 42px'' = Some (False, 42)"
  by (simp_all add: parse_digits_def digits_value_def is_digit_def is_ws_def Let_def)

lemma getDetectorThreshold_undefined: "getDetectorThreshold JUndefined = 3"
  by (simp add: getDetectorThreshold_def parseInt10_def parse_digits_examples
      DEFAULT_THRESHOLD_def)

lemma huge_threshold_digits: "parse_digits huge_threshold = Some (False, 10 ^ 309)"
  by (simp add: huge_threshold_def parse_digits_def digits_value_def is_digit_def is_ws_def Let_def)

text \<open>
  Claim C7, as stated, fails: a setting of 310 digits is set, numeric and parses to a
  value above 0, and the result is 3, not the parsed integer (\<open>parseInt\<close> gives
  \<open>Infinity\<close>, which \<open>Number.isFinite\<close> rejects).
\<close>

theorem getDetectorThreshold_counterexample:
  "parse_digits (toString (JStr huge_threshold)) = Some (False, 10 ^ 309)
   \<and> parseInt10 (JStr huge_threshold) = PosInfinity
   \<and> getDetectorThreshold (JStr huge_threshold) = 3
   \<and> getDetectorThreshold (JStr huge_threshold) \<noteq> 10 ^ 309"
proof -
  have "(2::nat) ^ 1024 \<le> 10 ^ 309" by simp
  then have "round_to_double (10 ^ 309) = None" by (rule round_to_double_overflow)
  then show ?thesis
    by (simp add: getDetectorThreshold_def parseInt10_def huge_threshold_digits
        DEFAULT_THRESHOLD_def)
qed

text \<open>
  Claim C7, amended. \<open>getDetectorThreshold\<close> returns 3 when its input has no leading
  decimal integer (unset, non-numeric), when the integer is not above 0, and when it is
  too large for a finite number: its nearest double would be \<open>2 ^ 1024\<close> or more, which
  is so from \<open>2 ^ 1024 - 2 ^ 970\<close> on and so for every integer from \<open>2 ^ 1024\<close> on.
  Otherwise it returns the parsed number, which is the integer itself up to \<open>2 ^ 53\<close> and
  its nearest double above. In particular undefined gives 3, "abc" gives 3, "0" gives 3
  and "5" gives 5.
\<close>

theorem getDetectorThreshold_amended:
  "(parse_digits (toString raw) = None \<longrightarrow> getDetectorThreshold raw = 3)
   \<and> (parse_digits (toString raw) = Some (neg, m) \<and> (neg \<or> m = 0)
        \<longrightarrow> getDetectorThreshold raw = 3)
   \<and> (parse_digits (toString raw) = Some (False, m) \<and> 0 < m \<and> m \<le> 2 ^ 53
        \<longrightarrow> getDetectorThreshold raw = int m)
   \<and> (parse_digits (toString raw) = Some (False, m) \<and> 2 ^ 1024 \<le> m
        \<longrightarrow> getDetectorThreshold raw = 3)
   \<and> (parse_digits (toString raw) = Some (False, m) \<and> 0 < m
        \<longrightarrow> getDetectorThreshold raw
            = (case round_to_double m of None \<Rightarrow> 3 | Some d \<Rightarrow> int d))
   \<and> getDetectorThreshold JUndefined = 3
   \<and> getDetectorThreshold (JStr ''abc'') = 3
   \<and> getDetectorThreshold (JStr ''0'') = 3
   \<and> getDetectorThreshold (JStr ''5'') = 5"
proof -
  have a: "parse_digits (toString raw) = None \<longrightarrow> getDetectorThreshold raw = 3"
    by (simp add: getDetectorThreshold_def parseInt10_def DEFAULT_THRESHOLD_def)
  have b: "parse_digits (toString raw) = Some (neg, m) \<and> (neg \<or> m = 0)
        \<longrightarrow> getDetectorThreshold raw = 3"
    using getDetectorThreshold_not_positive by blast
  have c: "parse_digits (toString raw) = Some (False, m) \<and> 0 < m \<and> m \<le> 2 ^ 53
        \<longrightarrow> getDetectorThreshold raw = int m"
    by (simp add: getDetectorThreshold_unsigned round_to_double_exact)
  have d: "parse_digits (toString raw) = Some (False, m) \<and> 2 ^ 1024 \<le> m
        \<longrightarrow> getDetectorThreshold raw = 3"
  proof (intro impI, elim conjE)
    assume p: "parse_digits (toString raw) = Some (False, m)" and big: "2 ^ 1024 \<le> m"
    from big have "0 < m" by (simp add: less_le_trans [of 0 "2 ^ 1024"])
    with p big show "getDetectorThreshold raw = 3"
      by (simp add: getDetectorThreshold_unsigned round_to_double_overflow)
  qed
  have e: "parse_digits (toString raw) = Some (False, m) \<and> 0 < m
        \<longrightarrow> getDetectorThreshold raw
            = (case round_to_double m of None \<Rightarrow> 3 | Some d \<Rightarrow> int d)"
    by (simp add: getDetectorThreshold_unsigned)
  have f: "getDetectorThreshold JUndefined = 3"
    by (rule getDetectorThreshold_undefined)
  have g: "getDetectorThreshold (JStr ''abc'') = 3"
    by (simp add: getDetectorThreshold_def parseInt10_def parse_digits_examples
        DEFAULT_THRESHOLD_def)
  have h: "getDetectorThreshold (JStr ''0'') = 3"
    by (rule getDetectorThreshold_not_positive [of _ False 0])
      (simp_all add: parse_digits_examples)
  have "getDetectorThreshold (JStr ''5'') = int 5"
    using getDetectorThreshold_unsigned [of "JStr ''5''" 5] round_to_double_exact [of 5]
    by (simp add: parse_digits_examples)
  then have i: "getDetectorThreshold (JStr ''5'') = 5" by simp
  show ?thesis
    using a b c d e f g h i by (intro conjI)
qed

theorem getDetectorThreshold_amended_witness:
  "getDetectorThreshold (JStr ''px'') = 3
   \<and> getDetectorThreshold (JStr ''-4'') = 3
   \<and> getDetectorThreshold (JStr '' 42px'') = 42
   \<and> getDetectorThreshold (JStr huge_threshold) = 3"
proof -
  have w1: "getDetectorThreshold (JStr ''px'') = 3"
    using getDetectorThreshold_amended [of "JStr ''px''" False 0]
    by (simp add: parse_digits_examples)
  have w2: "getDetectorThreshold (JStr ''-4'') = 3"
    using getDetectorThreshold_amended [of "JStr ''-4''" True 4]
    by (simp add: parse_digits_examples)
  have "(42::nat) \<le> 2 ^ 53" by simp
  then have w3: "getDetectorThreshold (JStr '' 42px'') = int 42"
    using getDetectorThreshold_amended [of "JStr '' 42px''" False 42]
    by (simp add: parse_digits_examples del: power_numeral)
  have big: "(2::nat) ^ 1024 \<le> 10 ^ 309" by simp
  have "parse_digits (toString (JStr huge_threshold)) = Some (False, 10 ^ 309)"
    by (simp add: huge_threshold_digits)
  with big have w4: "getDetectorThreshold (JStr huge_threshold) = 3"
    using getDetectorThreshold_amended [of "JStr huge_threshold" False "10 ^ 309"]
    by blast
  show ?thesis
    using w1 w2 w3 w4 by simp
qed

section \<open>The authenticator\<close>

lemma getHeader_loop_find:
  "getHeader_loop kvs wanted =
     (case find (\<lambda>(key, v). toLowerCase key = wanted) kvs of
        None \<Rightarrow> Inr []
      | Some (key, v) \<Rightarrow> cleanString (first_if_array v))"
  by (induction kvs wanted rule: getHeader_loop.induct) simp_all

lemma entries_not_object:
  "\<not> truthy headers \<or> \<not> typeof_object headers \<Longrightarrow> entries headers = []"
  by (cases headers) simp_all

lemma getHeader_find:
  "getHeader headers name =
     (case find (\<lambda>(key, v). toLowerCase key = toLowerCase name) (entries headers) of
        None \<Rightarrow> Inr []
      | Some (key, v) \<Rightarrow> cleanString (first_if_array v))"
proof (cases "\<not> truthy headers \<or> \<not> typeof_object headers")
  case True
  then have "entries headers = []" by (rule entries_not_object)
  with True show ?thesis by (simp add: getHeader_def)
next
  case False
  then show ?thesis by (simp add: getHeader_def getHeader_loop_find)
qed

lemma header_name_lower: "toLowerCase ''x-webhook-secret'' = ''x-webhook-secret''"
  by (simp add: toLowerCase_def lower_char_def)

lemma isAuthorizedRequest_secret_throws:
  assumes "cleanString expectedSecret = Inl error"
  shows "isAuthorizedRequest event expectedSecret = Inl error"
  using assms by (simp add: isAuthorizedRequest_def)

lemma isAuthorizedRequest_no_secret:
  assumes "cleanString expectedSecret = Inr []"
  shows "isAuthorizedRequest event expectedSecret = Inr False"
  using assms by (simp add: isAuthorizedRequest_def)

lemma isAuthorizedRequest_secret:
  assumes "cleanString expectedSecret = Inr secret" and "secret \<noteq> []"
  shows "isAuthorizedRequest event expectedSecret
         = (case find (\<lambda>(key, v). toLowerCase key = ''x-webhook-secret'')
                      (entries (request_headers event)) of
              None \<Rightarrow> Inr False
            | Some (key, v) \<Rightarrow>
                (case cleanString (first_if_array v) of
                   Inl error \<Rightarrow> Inl error
                 | Inr provided \<Rightarrow> Inr (provided = secret)))"
proof (cases "find (\<lambda>(key, v). toLowerCase key = ''x-webhook-secret'')
                   (entries (request_headers event))")
  case None
  then have "getHeader (request_headers event) ''x-webhook-secret'' = Inr []"
    by (simp add: getHeader_find header_name_lower)
  with assms None show ?thesis
    by (auto simp: isAuthorizedRequest_def)
next
  case (Some kv)
  obtain key v where kv: "kv = (key, v)" by (cases kv)
  from Some kv have
    "getHeader (request_headers event) ''x-webhook-secret'' = cleanString (first_if_array v)"
    by (simp add: getHeader_find header_name_lower)
  with assms Some kv show ?thesis
    by (simp add: isAuthorizedRequest_def split: sum.splits)
qed

lemma handler_auth_throws:
  assumes "isAuthorizedRequest event (env_value (ctx ''WEBHOOK_SECRET'')) = Inl error"
  shows "handler ex ctx event st = (internal_error_response, st)"
  using assms by (simp add: handler_def)

lemma handler_unauthorized:
  assumes "isAuthorizedRequest event (env_value (ctx ''WEBHOOK_SECRET'')) = Inr False"
  shows "handler ex ctx event st = (unauthorized_response, st)"
  using assms by (simp add: handler_def)

text \<open>
  Claim C4, as stated, fails: the header value is the secret padded with a space on each
  side, which is not the configured secret, and the request is authorized.
\<close>

theorem isAuthorizedRequest_counterexample:
  "opt_get (request_headers padded_secret_event) ''X-Webhook-Secret'' = JStr '' s3cret ''
   \<and> '' s3cret '' \<noteq> ''s3cret''
   \<and> isAuthorizedRequest padded_secret_event (JStr ''s3cret'') = Inr True"
  by (simp add: padded_secret_event_def request_headers_def js_or_def isAuthorizedRequest_def
      getHeader_def cleanString_def trim_def is_ws_def toLowerCase_def lower_char_def
      char_of_bits)

text \<open>
  Claim C4, amended. When the configured secret is unset, empty or white space only, the
  authenticator returns unauthorized whatever the headers are. Otherwise the headers are
  searched for the first entry whose name is \<open>x-webhook-secret\<close> whatever its letter case,
  and the request is authorized exactly when that entry's value (the first element of an
  array value), trimmed of surrounding white space, equals the trimmed secret; a request
  with no such entry is not authorized. When that value, or the secret, is a value that
  \<open>String\<close> cannot convert (an object with an own \<open>toString\<close> entry, or an array holding
  one), the authenticator throws instead of answering, and the handler answers
  500 \<open>internal_error\<close>.
\<close>

theorem isAuthorizedRequest_amended:
  "(cleanString expectedSecret = Inr [] \<longrightarrow>
      isAuthorizedRequest event expectedSecret = Inr False)
   \<and> (cleanString expectedSecret = Inr secret \<and> secret \<noteq> [] \<longrightarrow>
        isAuthorizedRequest event expectedSecret
        = (case find (\<lambda>(key, v). toLowerCase key = ''x-webhook-secret'')
                     (entries (request_headers event)) of
             None \<Rightarrow> Inr False
           | Some (key, v) \<Rightarrow>
               (if String_throws (first_if_array v) then Inl TypeError
                else Inr (trimmed_string (first_if_array v) = secret))))
   \<and> (String_throws expectedSecret \<longrightarrow>
        isAuthorizedRequest event expectedSecret = Inl TypeError)
   \<and> cleanString expectedSecret
       = (if String_throws expectedSecret then Inl TypeError
          else Inr (trimmed_string expectedSecret))
   \<and> (isAuthorizedRequest event (env_value (ctx ''WEBHOOK_SECRET'')) = Inl error \<longrightarrow>
        handler ex ctx event st = (internal_error_response, st))
   \<and> (isAuthorizedRequest event (env_value (ctx ''WEBHOOK_SECRET'')) = Inr False \<longrightarrow>
        handler ex ctx event st = (unauthorized_response, st))"
proof (intro conjI impI)
  assume "cleanString expectedSecret = Inr []"
  then show "isAuthorizedRequest event expectedSecret = Inr False"
    by (rule isAuthorizedRequest_no_secret)
next
  assume a: "cleanString expectedSecret = Inr secret \<and> secret \<noteq> []"
  have c: "(case cleanString w of Inl error \<Rightarrow> Inl error | Inr provided \<Rightarrow> Inr (provided = secret))
           = (if String_throws w then Inl TypeError else Inr (trimmed_string w = secret))"
    for w
    by (cases "String_throws w") (simp_all add: cleanString_throws cleanString_returns)
  from a show "isAuthorizedRequest event expectedSecret
        = (case find (\<lambda>(key, v). toLowerCase key = ''x-webhook-secret'')
                     (entries (request_headers event)) of
             None \<Rightarrow> Inr False
           | Some (key, v) \<Rightarrow>
               (if String_throws (first_if_array v) then Inl TypeError
                else Inr (trimmed_string (first_if_array v) = secret)))"
    by (simp add: isAuthorizedRequest_secret c split: option.splits)
next
  assume "String_throws expectedSecret"
  then have "cleanString expectedSecret = Inl TypeError" by (rule cleanString_throws)
  then show "isAuthorizedRequest event expectedSecret = Inl TypeError"
    by (rule isAuthorizedRequest_secret_throws)
next
  show "cleanString expectedSecret
       = (if String_throws expectedSecret then Inl TypeError
          else Inr (trimmed_string expectedSecret))"
    by (simp add: cleanString_throws cleanString_returns)
next
  assume "isAuthorizedRequest event (env_value (ctx ''WEBHOOK_SECRET'')) = Inl error"
  then show "handler ex ctx event st = (internal_error_response, st)"
    by (rule handler_auth_throws)
next
  assume "isAuthorizedRequest event (env_value (ctx ''WEBHOOK_SECRET'')) = Inr False"
  then show "handler ex ctx event st = (unauthorized_response, st)"
    by (rule handler_unauthorized)
qed

theorem isAuthorizedRequest_amended_witness:
  "isAuthorizedRequest padded_secret_event (JStr ''s3cret'') = Inr True
   \<and> isAuthorizedRequest padded_secret_event (JStr ''other'') = Inr False
   \<and> isAuthorizedRequest padded_secret_event (JStr ''  '') = Inr False
   \<and> isAuthorizedRequest padded_secret_event JUndefined = Inr False
   \<and> isAuthorizedRequest object_secret_event (JStr ''s3cret'') = Inl TypeError
   \<and> isAuthorizedRequest padded_secret_event (JObj [(''toString'', JNull)]) = Inl TypeError
   \<and> handler duplicate_world unconfigured_context object_secret_event initial_state
       = (internal_error_response, initial_state)
   \<and> handler duplicate_world (context_of [(''WEBHOOK_SECRET'', ''other'')])
         padded_secret_event initial_state
       = (unauthorized_response, initial_state)"
proof -
  have hs: "entries (request_headers padded_secret_event)
            = [(''X-Webhook-Secret'', JStr '' s3cret '')]"
    "entries (request_headers object_secret_event)
            = [(''x-webhook-secret'', JObj [(''toString'', JBool True)])]"
    by (simp_all add: padded_secret_event_def object_secret_event_def request_headers_def
        js_or_def)
  have low: "toLowerCase ''X-Webhook-Secret'' = ''x-webhook-secret''"
    by (simp add: toLowerCase_def lower_char_def char_of_bits)
  have cs: "cleanString (JStr ''s3cret'') = Inr ''s3cret'' \<and> ''s3cret'' \<noteq> []"
    "cleanString (JStr ''other'') = Inr ''other'' \<and> ''other'' \<noteq> []"
    "cleanString (JStr ''  '') = Inr []"
    "cleanString JUndefined = Inr []"
    "trimmed_string (JStr '' s3cret '') = ''s3cret''"
    by (simp_all add: cleanString_def trimmed_string_def trim_def is_ws_def)
  have w1: "isAuthorizedRequest padded_secret_event (JStr ''s3cret'') = Inr True"
    using isAuthorizedRequest_amended [of "JStr ''s3cret''" padded_secret_event "''s3cret''"]
      cs(1)
    by (simp add: hs low cs(5))
  have w2: "isAuthorizedRequest padded_secret_event (JStr ''other'') = Inr False"
    using isAuthorizedRequest_amended [of "JStr ''other''" padded_secret_event "''other''"]
      cs(2)
    by (simp add: hs low cs(5))
  have w3: "isAuthorizedRequest padded_secret_event (JStr ''  '') = Inr False"
    using isAuthorizedRequest_amended [of "JStr ''  ''" padded_secret_event] cs(3)
    by blast
  have w4: "isAuthorizedRequest padded_secret_event JUndefined = Inr False"
    using isAuthorizedRequest_amended [of JUndefined padded_secret_event] cs(4)
    by blast
  have w5: "isAuthorizedRequest object_secret_event (JStr ''s3cret'') = Inl TypeError"
    using isAuthorizedRequest_amended [of "JStr ''s3cret''" object_secret_event "''s3cret''"]
      cs(1)
    by (simp add: hs header_name_lower)
  have "String_throws (JObj [(''toString'', JNull)])" by simp
  then have w6: "isAuthorizedRequest padded_secret_event (JObj [(''toString'', JNull)])
                 = Inl TypeError"
    using isAuthorizedRequest_amended [of "JObj [(''toString'', JNull)]" padded_secret_event]
    by blast
  have sec: "env_value (unconfigured_context ''WEBHOOK_SECRET'') = JStr ''s3cret''"
    "env_value (context_of [(''WEBHOOK_SECRET'', ''other'')] ''WEBHOOK_SECRET'') = JStr ''other''"
    by (simp_all add: unconfigured_context_def context_of_def)
  have w7: "handler duplicate_world unconfigured_context object_secret_event initial_state
       = (internal_error_response, initial_state)"
    using isAuthorizedRequest_amended
      [of _ object_secret_event _ unconfigured_context TypeError duplicate_world initial_state]
      w5 sec(1)
    by simp
  have w8: "handler duplicate_world (context_of [(''WEBHOOK_SECRET'', ''other'')])
             padded_secret_event initial_state
           = (unauthorized_response, initial_state)"
    using isAuthorizedRequest_amended
      [of _ padded_secret_event _ "context_of [(''WEBHOOK_SECRET'', ''other'')]" _
        duplicate_world initial_state]
      w2 sec(2)
    by simp
  show ?thesis
    using w1 w2 w3 w4 w5 w6 w7 w8 by simp
qed

section \<open>The normalizer\<close>

lemma cleanString_if:
  "cleanString v = (if String_throws v then Inl TypeError else Inr (trimmed_string v))"
  by (simp add: cleanString_throws cleanString_returns)

lemma parsePayload_returns:
  assumes "\<not> list_ex String_throws (payload_fields (payload_of event))"
  shows "parsePayload event =
     Inr \<lparr> email_id = JStr (trimmed_string (raw_identifier (payload_of event))),
           subject = JStr (trimmed_string (opt_get (payload_of event) ''subject'')),
           frm = JStr (trimmed_string (opt_get (payload_of event) ''from'')),
           date = JStr (trimmed_string (opt_get (payload_of event) ''date'')),
           snippet = JStr (trimmed_string (opt_get (payload_of event) ''snippet'')),
           body = JStr (trimmed_string (opt_get (payload_of event) ''body'')),
           source = JStr (if trimmed_string (opt_get (payload_of event) ''source'') \<noteq> []
                          then trimmed_string (opt_get (payload_of event) ''source'')
                          else DEFAULT_SOURCE) \<rparr>"
  using assms
  by (simp add: parsePayload_def then_clean_def Let_def payload_fields_def cleanString_if)

lemma parsePayload_throws:
  assumes "list_ex String_throws (payload_fields (payload_of event))"
  shows "parsePayload event = Inl TypeError"
  using assms
  by (auto simp: parsePayload_def then_clean_def Let_def payload_fields_def cleanString_if)

lemma parsePayload_email_id:
  assumes "parsePayload event = Inr p"
  shows "email_id p = JStr (trimmed_string (raw_identifier (payload_of event)))"
proof (cases "list_ex String_throws (payload_fields (payload_of event))")
  case True
  then show ?thesis using assms by (simp add: parsePayload_throws)
next
  case False
  then show ?thesis using assms by (auto simp: parsePayload_returns)
qed

lemma parsePayload_fields_strings:
  assumes "parsePayload event = Inr p"
  shows "\<not> String_throws (email_id p) \<and> \<not> String_throws (subject p)
         \<and> \<not> String_throws (frm p) \<and> \<not> String_throws (date p)
         \<and> \<not> String_throws (snippet p) \<and> \<not> String_throws (body p)
         \<and> \<not> String_throws (source p)"
proof (cases "list_ex String_throws (payload_fields (payload_of event))")
  case True
  then show ?thesis using assms by (simp add: parsePayload_throws)
next
  case False
  then show ?thesis using assms by (auto simp: parsePayload_returns)
qed

lemma handler_parse_throws:
  assumes "isAuthorizedRequest event (env_value (ctx ''WEBHOOK_SECRET'')) = Inr True"
    and "parsePayload event = Inl error"
  shows "handler ex ctx event st = (internal_error_response, st)"
  using assms by (simp add: handler_def)

text \<open>
  Claim C10. The identifier is chosen among \<open>email_id\<close>, \<open>emailId\<close> and \<open>message_id\<close> by
  truthiness, before trimming: a falsy \<open>email_id\<close> (the empty string among them) hands
  over to the later aliases, a truthy one is taken, and an \<open>email_id\<close> of white space only
  is taken and then trims to the empty string, so the event has no identifier whatever
  \<open>emailId\<close> and \<open>message_id\<close> hold. \<open>parsePayload\<close> returns the event when \<open>String\<close> can
  convert the seven values it cleans; when one of them is an object with an own
  \<open>toString\<close> entry it throws, and the handler answers 500 \<open>internal_error\<close>.
\<close>

theorem parsePayload_identifier_precedence:
  "(\<not> truthy (opt_get (payload_of event) ''email_id'') \<and> parsePayload event = Inr p \<longrightarrow>
      email_id p
      = JStr (trimmed_string (js_or (opt_get (payload_of event) ''emailId'')
                                    (opt_get (payload_of event) ''message_id''))))
   \<and> (truthy (opt_get (payload_of event) ''email_id'') \<and> parsePayload event = Inr p \<longrightarrow>
      email_id p = JStr (trimmed_string (opt_get (payload_of event) ''email_id'')))
   \<and> (opt_get (payload_of event) ''email_id'' = JStr w \<and> w \<noteq> [] \<and> list_all is_ws w
        \<and> parsePayload event = Inr p \<longrightarrow>
      email_id p = JStr [])
   \<and> (\<not> list_ex String_throws (payload_fields (payload_of event)) \<longrightarrow>
      parsePayload event =
        Inr \<lparr> email_id = JStr (trimmed_string (raw_identifier (payload_of event))),
              subject = JStr (trimmed_string (opt_get (payload_of event) ''subject'')),
              frm = JStr (trimmed_string (opt_get (payload_of event) ''from'')),
              date = JStr (trimmed_string (opt_get (payload_of event) ''date'')),
              snippet = JStr (trimmed_string (opt_get (payload_of event) ''snippet'')),
              body = JStr (trimmed_string (opt_get (payload_of event) ''body'')),
              source = JStr (if trimmed_string (opt_get (payload_of event) ''source'') \<noteq> []
                             then trimmed_string (opt_get (payload_of event) ''source'')
                             else DEFAULT_SOURCE) \<rparr>)
   \<and> (list_ex String_throws (payload_fields (payload_of event)) \<longrightarrow>
      parsePayload event = Inl TypeError)
   \<and> (isAuthorizedRequest event (env_value (ctx ''WEBHOOK_SECRET'')) = Inr True
        \<and> parsePayload event = Inl error \<longrightarrow>
      handler ex ctx event st = (internal_error_response, st))"
proof (intro conjI impI)
  assume a: "\<not> truthy (opt_get (payload_of event) ''email_id'') \<and> parsePayload event = Inr p"
  then have "raw_identifier (payload_of event)
             = js_or (opt_get (payload_of event) ''emailId'')
                     (opt_get (payload_of event) ''message_id'')"
    by (simp add: raw_identifier_def js_or_def)
  with a show "email_id p
      = JStr (trimmed_string (js_or (opt_get (payload_of event) ''emailId'')
                                    (opt_get (payload_of event) ''message_id'')))"
    using parsePayload_email_id [of event p] by simp
next
  assume a: "truthy (opt_get (payload_of event) ''email_id'') \<and> parsePayload event = Inr p"
  then have "raw_identifier (payload_of event) = opt_get (payload_of event) ''email_id''"
    by (simp add: raw_identifier_def js_or_def)
  with a show "email_id p = JStr (trimmed_string (opt_get (payload_of event) ''email_id''))"
    using parsePayload_email_id [of event p] by simp
next
  assume a: "opt_get (payload_of event) ''email_id'' = JStr w \<and> w \<noteq> [] \<and> list_all is_ws w
        \<and> parsePayload event = Inr p"
  then have "raw_identifier (payload_of event) = JStr w"
    by (simp add: raw_identifier_def js_or_def)
  moreover from a have "trim w = []" by (simp add: trim_all_ws)
  ultimately show "email_id p = JStr []"
    using a parsePayload_email_id [of event p] by (simp add: trimmed_string_JStr)
next
  assume "\<not> list_ex String_throws (payload_fields (payload_of event))"
  then show "parsePayload event =
        Inr \<lparr> email_id = JStr (trimmed_string (raw_identifier (payload_of event))),
              subject = JStr (trimmed_string (opt_get (payload_of event) ''subject'')),
              frm = JStr (trimmed_string (opt_get (payload_of event) ''from'')),
              date = JStr (trimmed_string (opt_get (payload_of event) ''date'')),
              snippet = JStr (trimmed_string (opt_get (payload_of event) ''snippet'')),
              body = JStr (trimmed_string (opt_get (payload_of event) ''body'')),
              source = JStr (if trimmed_string (opt_get (payload_of event) ''source'') \<noteq> []
                             then trimmed_string (opt_get (payload_of event) ''source'')
                             else DEFAULT_SOURCE) \<rparr>"
    by (rule parsePayload_returns)
next
  assume "list_ex String_throws (payload_fields (payload_of event))"
  then show "parsePayload event = Inl TypeError"
    by (rule parsePayload_throws)
next
  assume "isAuthorizedRequest event (env_value (ctx ''WEBHOOK_SECRET'')) = Inr True
        \<and> parsePayload event = Inl error"
  then show "handler ex ctx event st = (internal_error_response, st)"
    by (simp add: handler_parse_throws)
qed

lemma example_payload_fields:
  "payload_fields (payload_of empty_id_event)
   = [JStr ''abc'', JUndefined, JUndefined, JUndefined, JUndefined, JUndefined, JUndefined]"
  "payload_fields (payload_of blank_id_event)
   = [JStr ''  '', JUndefined, JUndefined, JUndefined, JUndefined, JUndefined, JUndefined]"
  "payload_fields (payload_of object_id_event)
   = [JObj [(''toString'', JBool True)], JUndefined, JUndefined, JUndefined, JUndefined,
      JUndefined, JUndefined]"
  by (simp_all add: payload_fields_def payload_of_def raw_identifier_def js_or_def
      empty_id_event_def blank_id_event_def object_id_event_def)

theorem parsePayload_identifier_precedence_witness:
  "map_sum id email_id (parsePayload empty_id_event) = Inr (JStr ''abc'')
   \<and> map_sum id email_id (parsePayload blank_id_event) = Inr (JStr [])
   \<and> opt_get (payload_of blank_id_event) ''emailId'' = JStr ''abc''
   \<and> parsePayload object_id_event = Inl TypeError"
proof -
  have e1: "opt_get (payload_of empty_id_event) ''email_id'' = JStr []"
    "opt_get (payload_of empty_id_event) ''emailId'' = JStr ''abc''"
    by (simp_all add: payload_of_def empty_id_event_def)
  have b: "opt_get (payload_of blank_id_event) ''email_id'' = JStr ''  ''"
    "opt_get (payload_of blank_id_event) ''emailId'' = JStr ''abc''"
    by (simp_all add: payload_of_def blank_id_event_def)
  have r1: "\<not> list_ex String_throws (payload_fields (payload_of empty_id_event))"
    and r2: "\<not> list_ex String_throws (payload_fields (payload_of blank_id_event))"
    and r3: "list_ex String_throws (payload_fields (payload_of object_id_event))"
    by (simp_all add: example_payload_fields)
  obtain p1 where p1: "parsePayload empty_id_event = Inr p1"
    using parsePayload_identifier_precedence [of empty_id_event] r1 by blast
  obtain p2 where p2: "parsePayload blank_id_event = Inr p2"
    using parsePayload_identifier_precedence [of blank_id_event] r2 by blast
  have "\<not> truthy (opt_get (payload_of empty_id_event) ''email_id'')
        \<and> parsePayload empty_id_event = Inr p1"
    by (simp add: e1 p1)
  then have "email_id p1
      = JStr (trimmed_string (js_or (opt_get (payload_of empty_id_event) ''emailId'')
                                    (opt_get (payload_of empty_id_event) ''message_id'')))"
    using parsePayload_identifier_precedence [of empty_id_event p1] by blast
  then have w1: "email_id p1 = JStr ''abc''"
    by (simp add: e1 js_or_def trimmed_string_def trim_def is_ws_def)
  have "opt_get (payload_of blank_id_event) ''email_id'' = JStr ''  ''
        \<and> ''  '' \<noteq> [] \<and> list_all is_ws ''  '' \<and> parsePayload blank_id_event = Inr p2"
    by (simp add: b is_ws_def p2)
  then have w2: "email_id p2 = JStr []"
    using parsePayload_identifier_precedence [of blank_id_event p2 "''  ''"] by blast
  have w3: "parsePayload object_id_event = Inl TypeError"
    using parsePayload_identifier_precedence [of object_id_event] r3 by blast
  show ?thesis
    using w1 w2 w3 b by (simp add: p1 p2)
qed

section \<open>The dedupe key\<close>

text \<open>
  Claim C5. The key is a function of the payload's content: payloads that agree on
  \<open>email_id\<close>, \<open>from\<close>, \<open>subject\<close>, \<open>date\<close>, \<open>snippet\<close> and \<open>body\<close> get the same key. When
  \<open>email_id\<close> is present (truthy: a string that is not empty) the key is \<open>email:\<close> followed
  by it, whatever the other fields and the hash are.
\<close>

theorem buildDedupeKey_email_id:
  "(email_id q = email_id p \<and> frm q = frm p \<and> subject q = subject p \<and> date q = date p
      \<and> snippet q = snippet p \<and> body q = body p
     \<longrightarrow> buildDedupeKey h q = buildDedupeKey h p)
   \<and> (truthy (email_id p) \<longrightarrow> buildDedupeKey h p = ''email:'' @ toString (email_id p))
   \<and> (email_id p = JStr s \<and> s \<noteq> [] \<longrightarrow> buildDedupeKey h p = ''email:'' @ s)
   \<and> (truthy (email_id p) \<and> email_id q = email_id p
     \<longrightarrow> buildDedupeKey h' q = buildDedupeKey h p)"
proof (intro conjI impI)
  assume "email_id q = email_id p \<and> frm q = frm p \<and> subject q = subject p \<and> date q = date p
      \<and> snippet q = snippet p \<and> body q = body p"
  then show "buildDedupeKey h q = buildDedupeKey h p"
    by (simp add: buildDedupeKey_def)
next
  assume "truthy (email_id p)"
  then show "buildDedupeKey h p = ''email:'' @ toString (email_id p)"
    by (simp add: buildDedupeKey_def)
next
  assume "email_id p = JStr s \<and> s \<noteq> []"
  then show "buildDedupeKey h p = ''email:'' @ s"
    by (simp add: buildDedupeKey_def)
next
  assume "truthy (email_id p) \<and> email_id q = email_id p"
  then show "buildDedupeKey h' q = buildDedupeKey h p"
    by (simp add: buildDedupeKey_def)
qed

theorem buildDedupeKey_email_id_witness:
  "buildDedupeKey (\<lambda>base. base) id_payload = ''email:18f9f4f2''
   \<and> buildDedupeKey (\<lambda>base. []) (id_payload\<lparr>subject := JStr ''Other'', snippet := JNum 7\<rparr>)
       = buildDedupeKey (\<lambda>base. base) id_payload"
proof -
  have i: "email_id id_payload = JStr ''18f9f4f2'' \<and> ''18f9f4f2'' \<noteq> []"
    by (simp add: id_payload_def)
  have w1: "buildDedupeKey (\<lambda>base. base) id_payload = ''email:'' @ ''18f9f4f2''"
    using buildDedupeKey_email_id [of id_payload id_payload "\<lambda>base. base" "''18f9f4f2''"] i
    by blast
  have "truthy (email_id id_payload)
      \<and> email_id (id_payload\<lparr>subject := JStr ''Other'', snippet := JNum 7\<rparr>) = email_id id_payload"
    by (simp add: id_payload_def)
  then have w2: "buildDedupeKey (\<lambda>base. []) (id_payload\<lparr>subject := JStr ''Other'', snippet := JNum 7\<rparr>)
       = buildDedupeKey (\<lambda>base. base) id_payload"
    using buildDedupeKey_email_id [of "id_payload\<lparr>subject := JStr ''Other'', snippet := JNum 7\<rparr>"
        id_payload "\<lambda>base. base" "[]" "\<lambda>base. []"]
    by blast
  show ?thesis using w1 w2 by simp
qed

lemma same_up_to_case_clean:
  assumes "same_up_to_case x y"
  shows "toLowerCase (trimmed_string x) = toLowerCase (trimmed_string y)"
proof (cases "\<exists>a b. x = JStr a \<and> y = JStr b")
  case True
  then obtain a b where ab: "x = JStr a" "y = JStr b" by blast
  with assms have "toLowerCase a = toLowerCase b" by simp
  then have "trim (toLowerCase a) = trim (toLowerCase b)" by simp
  then show ?thesis by (simp add: ab trimmed_string_JStr toLowerCase_trim)
next
  case False
  with assms have "x = y"
    by (cases x; cases y) simp_all
  then show ?thesis by simp
qed

lemma same_up_to_case_excerpt:
  assumes "same_up_to_case x y"
  shows "toLowerCase (trimmed_string (JStr (clip x n))) = toLowerCase (trimmed_string (JStr (clip y n)))"
proof -
  have "toLowerCase (trimmed_string (JStr (clip v n))) = trim (take n (toLowerCase (trimmed_string v)))"
    for v
  proof -
    have "trimmed_string (JStr (clip v n)) = trim (take n (trimmed_string v))"
      by (simp add: trimmed_string_JStr clip_take)
    then show ?thesis by (simp add: toLowerCase_trim toLowerCase_take)
  qed
  then show ?thesis using same_up_to_case_clean [OF assms] by simp
qed

lemma strasse_keys:
  "buildDedupeKey h strasse_payload
   = ''hash:'' @ h (''hr@company.com|stra'' @ [CHR 0xDF] @ ''e|2026-01-01|interview'')"
  "buildDedupeKey h strasse_payload_capitals
   = ''hash:'' @ h ''hr@company.com|strasse|2026-01-01|interview''"
  by (simp_all add: buildDedupeKey_def strasse_payload_def strasse_payload_capitals_def
      js_or_def clip_def trimmed_string_def trim_def is_ws_def toLowerCase_def lower_char_def
      char_of_bits Let_def)

text \<open>Whatever the hash is, the two keys differ unless it collides on the two strings.\<close>

lemma strasse_keys_differ:
  assumes "inj h"
  shows "buildDedupeKey h strasse_payload \<noteq> buildDedupeKey h strasse_payload_capitals"
proof -
  have "''hr@company.com|stra'' @ [CHR 0xDF] @ ''e|2026-01-01|interview''
        \<noteq> ''hr@company.com|strasse|2026-01-01|interview''"
    by simp
  then have "h (''hr@company.com|stra'' @ [CHR 0xDF] @ ''e|2026-01-01|interview'')
        \<noteq> h ''hr@company.com|strasse|2026-01-01|interview''"
    using assms by (simp add: inj_eq)
  then show ?thesis by (simp add: strasse_keys)
qed

text \<open>
  Claim C6, as stated, fails. The two payloads have no \<open>email_id\<close> and differ in the
  letter case of the subject only: the second subject is the first in capitals, as
  \<open>toUpperCase\<close> writes it (the sharp s has no capital of its own and becomes SS). Their
  lower-case forms are different strings, so the hash is taken of different inputs; the
  theorem shows the two inputs by taking the identity for the hash.
\<close>

theorem buildDedupeKey_case_counterexample:
  "\<not> truthy (email_id strasse_payload) \<and> \<not> truthy (email_id strasse_payload_capitals)
   \<and> frm strasse_payload_capitals = frm strasse_payload
   \<and> date strasse_payload_capitals = date strasse_payload
   \<and> snippet strasse_payload_capitals = snippet strasse_payload
   \<and> body strasse_payload_capitals = body strasse_payload
   \<and> toUpperCase (toString (subject strasse_payload_capitals))
       = toUpperCase (toString (subject strasse_payload))
   \<and> map of_char (toString (subject strasse_payload_capitals))
       = toUpperCase (toString (subject strasse_payload))
   \<and> buildDedupeKey (\<lambda>base. base) strasse_payload
       = ''hash:hr@company.com|stra'' @ [CHR 0xDF] @ ''e|2026-01-01|interview''
   \<and> buildDedupeKey (\<lambda>base. base) strasse_payload_capitals
       = ''hash:hr@company.com|strasse|2026-01-01|interview''
   \<and> buildDedupeKey (\<lambda>base. base) strasse_payload
       \<noteq> buildDedupeKey (\<lambda>base. base) strasse_payload_capitals"
proof -
  have fields: "\<not> truthy (email_id strasse_payload)"
    "\<not> truthy (email_id strasse_payload_capitals)"
    "frm strasse_payload_capitals = frm strasse_payload"
    "date strasse_payload_capitals = date strasse_payload"
    "snippet strasse_payload_capitals = snippet strasse_payload"
    "body strasse_payload_capitals = body strasse_payload"
    by (simp_all add: strasse_payload_def strasse_payload_capitals_def)
  have up: "toUpperCase (toString (subject strasse_payload_capitals))
       = toUpperCase (toString (subject strasse_payload))"
    by (simp add: strasse_payload_def strasse_payload_capitals_def toUpperCase_def
        upper_units_def)
  have caps: "map of_char (toString (subject strasse_payload_capitals))
       = toUpperCase (toString (subject strasse_payload))"
    by (simp add: strasse_payload_def strasse_payload_capitals_def toUpperCase_def
        upper_units_def)
  have k1: "buildDedupeKey (\<lambda>base. base) strasse_payload
       = ''hash:hr@company.com|stra'' @ [CHR 0xDF] @ ''e|2026-01-01|interview''"
    by (simp add: strasse_keys)
  have k2: "buildDedupeKey (\<lambda>base. base) strasse_payload_capitals
       = ''hash:hr@company.com|strasse|2026-01-01|interview''"
    by (simp add: strasse_keys)
  have d: "buildDedupeKey (\<lambda>base. base) strasse_payload
       \<noteq> buildDedupeKey (\<lambda>base. base) strasse_payload_capitals"
    by (rule strasse_keys_differ) simp
  show ?thesis
    using fields up caps k1 k2 d by (intro conjI)
qed

text \<open>
  Claim C6, amended. For text of the code units 0..255 (ASCII and Latin-1), two payloads
  without an \<open>email_id\<close> whose \<open>from\<close>, \<open>subject\<close>, \<open>date\<close> and excerpt (snippet, or body when
  there is no snippet) have the same lower-case form, as \<open>toLowerCase\<close> gives it, get the
  same key, and it starts with \<open>hash:\<close>. Spellings that differ in case without having the
  same lower-case form (the sharp s and SS) get different keys.
\<close>

theorem buildDedupeKey_case_insensitive:
  "\<not> truthy (email_id p) \<and> \<not> truthy (email_id q)
   \<and> same_up_to_case (frm p) (frm q)
   \<and> same_up_to_case (subject p) (subject q)
   \<and> same_up_to_case (date p) (date q)
   \<and> same_up_to_case (js_or (snippet p) (body p)) (js_or (snippet q) (body q))
   \<longrightarrow> buildDedupeKey h p = buildDedupeKey h q
       \<and> take 5 (buildDedupeKey h p) = ''hash:''"
proof (intro impI, elim conjE)
  assume ids: "\<not> truthy (email_id p)" "\<not> truthy (email_id q)"
    and f: "same_up_to_case (frm p) (frm q)"
    and s: "same_up_to_case (subject p) (subject q)"
    and d: "same_up_to_case (date p) (date q)"
    and x: "same_up_to_case (js_or (snippet p) (body p)) (js_or (snippet q) (body q))"
  have "buildDedupeKey h p = buildDedupeKey h q"
    using ids same_up_to_case_clean [OF f] same_up_to_case_clean [OF s]
      same_up_to_case_clean [OF d] same_up_to_case_excerpt [OF x, of 200]
    by (simp add: buildDedupeKey_def Let_def)
  moreover have "take 5 (buildDedupeKey h p) = ''hash:''"
    using ids by (simp add: buildDedupeKey_def Let_def)
  ultimately show "buildDedupeKey h p = buildDedupeKey h q
       \<and> take 5 (buildDedupeKey h p) = ''hash:''"
    by simp
qed

theorem buildDedupeKey_case_insensitive_witness:
  "buildDedupeKey (\<lambda>base. base) hash_payload
     = buildDedupeKey (\<lambda>base. base) hash_payload_capitals
   \<and> take 5 (buildDedupeKey (\<lambda>base. base) hash_payload) = ''hash:''"
proof -
  have "\<not> truthy (email_id hash_payload) \<and> \<not> truthy (email_id hash_payload_capitals)
   \<and> same_up_to_case (frm hash_payload) (frm hash_payload_capitals)
   \<and> same_up_to_case (subject hash_payload) (subject hash_payload_capitals)
   \<and> same_up_to_case (date hash_payload) (date hash_payload_capitals)
   \<and> same_up_to_case (js_or (snippet hash_payload) (body hash_payload))
        (js_or (snippet hash_payload_capitals) (body hash_payload_capitals))"
    by (simp add: hash_payload_def hash_payload_capitals_def js_or_def toLowerCase_def
        lower_char_def char_of_bits)
  then show ?thesis
    using buildDedupeKey_case_insensitive [of hash_payload hash_payload_capitals "\<lambda>base. base"]
    by blast
qed

section \<open>Delivery\<close>

lemma transport_calls_append:
  "transport_calls (cs @ ds) = transport_calls cs + transport_calls ds"
  by (simp add: transport_calls_def)

lemma transport_calls_record:
  "transport_calls (calls (record_call c st))
   = transport_calls (calls st) + (if is_CreateMessage c then 1 else 0)"
  by (simp add: record_call_def transport_calls_def)

lemma sendWithRetry_success:
  assumes "messages_create ex (transport_calls (calls st)) params = Inr message"
  shows "sendWithRetry ex params st
         = (Inr message, st\<lparr>calls := calls st @ [CreateMessage params]\<rparr>)"
  using assms by (simp add: sendWithRetry_def Let_def record_call_def)

lemma sendWithRetry_permanent:
  assumes "messages_create ex (transport_calls (calls st)) params = Inl error"
    and "\<not> isTransientError error"
  shows "sendWithRetry ex params st
         = (Inl error, st\<lparr>calls := calls st @ [CreateMessage params]\<rparr>)"
  using assms by (simp add: sendWithRetry_def Let_def record_call_def)

lemma sendWithRetry_transient:
  assumes "messages_create ex (transport_calls (calls st)) params = Inl error"
    and "isTransientError error"
  shows "sendWithRetry ex params st
         = (messages_create ex (Suc (transport_calls (calls st))) params,
            st\<lparr>calls := calls st @ [CreateMessage params, Sleep 800, CreateMessage params]\<rparr>)"
  using assms
  by (simp add: sendWithRetry_def Let_def record_call_def transport_calls_def
      SEND_RETRY_DELAY_MS_def)

lemma sendWithRetry_calls:
  "transport_calls (calls (snd (sendWithRetry ex params st))) \<le> transport_calls (calls st) + 2"
proof (cases "messages_create ex (transport_calls (calls st)) params")
  case (Inr message)
  then show ?thesis
    by (simp add: sendWithRetry_success transport_calls_append) (simp add: transport_calls_def)
next
  case (Inl error)
  show ?thesis
  proof (cases "isTransientError error")
    case True
    with Inl show ?thesis
      by (simp add: sendWithRetry_transient transport_calls_append)
        (simp add: transport_calls_def)
  next
    case False
    with Inl show ?thesis
      by (simp add: sendWithRetry_permanent transport_calls_append)
        (simp add: transport_calls_def)
  qed
qed

lemma isTransientError_iff:
  "isTransientError error
   = (\<exists>code. status_or_statusCode error = Some code
         \<and> (code = 429 \<or> (500 \<le> code \<and> code < 600)))"
  by (cases "status_or_statusCode error") (simp_all add: isTransientError_def)

section \<open>The dedup step\<close>

lemma list_and_pick_service_transport:
  "transport_calls (calls (snd (list_and_pick_service ex st))) = transport_calls (calls st)"
  by (simp add: list_and_pick_service_def Let_def transport_calls_record
      split: sum.splits option.splits list.splits)

lemma resolveSyncServiceSid_transport:
  "transport_calls (calls (snd (resolveSyncServiceSid ex ctx st))) = transport_calls (calls st)"
  by (simp add: resolveSyncServiceSid_def cleanString_env list_and_pick_service_transport
      split: option.splits)

text \<open>How the service is resolved, and where an error of the store ends it.\<close>

lemma resolve_provided:
  assumes "cleanString (env_value (ctx ''TWILIO_SYNC_SERVICE_SID'')) = Inr provided"
    and "provided \<noteq> []"
  shows "resolveSyncServiceSid ex ctx st = (Inr provided, st)"
  using assms by (simp add: resolveSyncServiceSid_def)

lemma resolve_cached:
  assumes "cleanString (env_value (ctx ''TWILIO_SYNC_SERVICE_SID'')) = Inr []"
    and "cachedSyncServiceSid st = Some cached" and "cached \<noteq> []"
  shows "resolveSyncServiceSid ex ctx st = (Inr cached, st)"
  using assms by (simp add: resolveSyncServiceSid_def)

lemma resolve_lists:
  assumes "cleanString (env_value (ctx ''TWILIO_SYNC_SERVICE_SID'')) = Inr []"
    and "cachedSyncServiceSid st = None \<or> cachedSyncServiceSid st = Some []"
  shows "resolveSyncServiceSid ex ctx st = list_and_pick_service ex st"
  using assms by (auto simp: resolveSyncServiceSid_def)

lemma list_error:
  assumes "services_list ex = Inl error"
  shows "list_and_pick_service ex st = (Inl error, record_call (ListServices 20) st)"
  using assms by (simp add: list_and_pick_service_def Let_def)

lemma list_create_error:
  assumes "services_list ex = Inr []"
    and "services_create ex SYNC_SERVICE_NAME = Inl error"
  shows "list_and_pick_service ex st
         = (Inl error, record_call (CreateService SYNC_SERVICE_NAME)
                         (record_call (ListServices 20) st))"
  using assms by (simp add: list_and_pick_service_def Let_def)

lemma list_and_pick_service_error:
  assumes "list_and_pick_service ex st = (Inl error, st1)"
  shows "services_list ex = Inl error
         \<or> (services_list ex = Inr [] \<and> services_create ex SYNC_SERVICE_NAME = Inl error)"
  using assms
  by (auto simp: list_and_pick_service_def Let_def split: sum.splits option.splits list.splits)

lemma resolve_error:
  assumes "resolveSyncServiceSid ex ctx st = (Inl error, st1)"
  shows "services_list ex = Inl error
         \<or> (services_list ex = Inr [] \<and> services_create ex SYNC_SERVICE_NAME = Inl error)"
proof -
  have "list_and_pick_service ex st = (Inl error, st1)"
    using assms
    by (auto simp: resolveSyncServiceSid_def cleanString_env split: option.splits if_splits)
  then show ?thesis by (rule list_and_pick_service_error)
qed

lemma markAsProcessedIfNew_resolve_error:
  assumes "resolveSyncServiceSid ex ctx st = (Inl error, st1)"
  shows "markAsProcessedIfNew ex ctx k st = (Inl error, st1)"
  using assms by (simp add: markAsProcessedIfNew_def)

lemma markAsProcessedIfNew_found:
  assumes "resolveSyncServiceSid ex ctx st = (Inr serviceSid, st1)"
    and "documents_fetch ex serviceSid k = None"
  shows "markAsProcessedIfNew ex ctx k st
         = (Inr False, record_call (FetchDocument serviceSid k) st1)"
  using assms by (simp add: markAsProcessedIfNew_def Let_def)

lemma markAsProcessedIfNew_fetch_error:
  assumes "resolveSyncServiceSid ex ctx st = (Inr serviceSid, st1)"
    and "documents_fetch ex serviceSid k = Some error"
    and "status error \<noteq> Some 404"
  shows "markAsProcessedIfNew ex ctx k st
         = (Inl error, record_call (FetchDocument serviceSid k) st1)"
  using assms by (simp add: markAsProcessedIfNew_def Let_def)

lemma markAsProcessedIfNew_created:
  assumes "resolveSyncServiceSid ex ctx st = (Inr serviceSid, st1)"
    and "documents_fetch ex serviceSid k = Some error"
    and "status error = Some 404"
    and "documents_create ex serviceSid k 86400 = None"
  shows "markAsProcessedIfNew ex ctx k st
         = (Inr True, record_call (CreateDocument serviceSid k 86400)
                        (record_call (FetchDocument serviceSid k) st1))"
  using assms by (simp add: markAsProcessedIfNew_def Let_def DEDUPE_TTL_SECONDS_def)

lemma markAsProcessedIfNew_conflict:
  assumes "resolveSyncServiceSid ex ctx st = (Inr serviceSid, st1)"
    and "documents_fetch ex serviceSid k = Some error"
    and "status error = Some 404"
    and "documents_create ex serviceSid k 86400 = Some error2"
    and "status error2 = Some 409"
  shows "markAsProcessedIfNew ex ctx k st
         = (Inr False, record_call (CreateDocument serviceSid k 86400)
                         (record_call (FetchDocument serviceSid k) st1))"
  using assms by (simp add: markAsProcessedIfNew_def Let_def DEDUPE_TTL_SECONDS_def)

lemma markAsProcessedIfNew_create_error:
  assumes "resolveSyncServiceSid ex ctx st = (Inr serviceSid, st1)"
    and "documents_fetch ex serviceSid k = Some error"
    and "status error = Some 404"
    and "documents_create ex serviceSid k 86400 = Some error2"
    and "status error2 \<noteq> Some 409"
  shows "markAsProcessedIfNew ex ctx k st
         = (Inl error2, record_call (CreateDocument serviceSid k 86400)
                          (record_call (FetchDocument serviceSid k) st1))"
  using assms by (simp add: markAsProcessedIfNew_def Let_def DEDUPE_TTL_SECONDS_def)

lemma markAsProcessedIfNew_transport:
  "transport_calls (calls (snd (markAsProcessedIfNew ex ctx k st))) = transport_calls (calls st)"
proof -
  obtain r st1 where res: "resolveSyncServiceSid ex ctx st = (r, st1)"
    by (cases "resolveSyncServiceSid ex ctx st")
  then have t: "transport_calls (calls st1) = transport_calls (calls st)"
    using resolveSyncServiceSid_transport [of ex ctx st] by simp
  show ?thesis
    using t by (simp add: markAsProcessedIfNew_def res Let_def transport_calls_record
        split: sum.splits option.splits)
qed

section \<open>The handler\<close>

lemma handler_ignored:
  assumes "isAuthorizedRequest event (env_value (ctx ''WEBHOOK_SECRET'')) = Inr True"
    and "parsePayload event = Inr p"
    and "int (score (scorePayload p))
           < getDetectorThreshold (env_value (ctx ''DETECTOR_THRESHOLD''))"
  shows "handler ex ctx event st = (ignored_response (score (scorePayload p)), st)"
  using assms by (simp add: handler_def Let_def)

lemma handler_missing_env:
  assumes "isAuthorizedRequest event (env_value (ctx ''WEBHOOK_SECRET'')) = Inr True"
    and "parsePayload event = Inr p"
    and "\<not> int (score (scorePayload p))
             < getDetectorThreshold (env_value (ctx ''DETECTOR_THRESHOLD''))"
    and "\<not> ok (assertSendConfig ctx)"
  shows "handler ex ctx event st = (missing_env_response, st)"
  using assms by (simp add: handler_def Let_def)

lemma handler_client_error:
  assumes "isAuthorizedRequest event (env_value (ctx ''WEBHOOK_SECRET'')) = Inr True"
    and "parsePayload event = Inr p"
    and "\<not> int (score (scorePayload p))
             < getDetectorThreshold (env_value (ctx ''DETECTOR_THRESHOLD''))"
    and "ok (assertSendConfig ctx)"
    and "new_client ex (env_value (ctx ''TWILIO_ACCOUNT_SID''))
           (env_value (ctx ''TWILIO_AUTH_TOKEN'')) = Some error"
  shows "handler ex ctx event st = (internal_error_response, st)"
  using assms by (simp add: handler_def Let_def)

lemma handler_passes_gate:
  assumes "passes_gate ex ctx event p"
  shows "handler ex ctx event st
         = (case markAsProcessedIfNew ex ctx (buildDedupeKey (sha256_hex ex) p) st of
              (Inl error, st1) \<Rightarrow> (internal_error_response, st1)
            | (Inr isNew, st1) \<Rightarrow>
                if \<not> isNew then (deduped_response, st1)
                else case sendWithRetry ex
                            \<lparr>msg_from = env_value (ctx ''TWILIO_WHATSAPP_FROM''),
                             msg_to = env_value (ctx ''TWILIO_WHATSAPP_TO''),
                             msg_body = buildWhatsAppBody (invite_marker ex) p\<rparr> st1 of
                       (Inl error, st2) \<Rightarrow> (internal_error_response, st2)
                     | (Inr message_sid, st2) \<Rightarrow> (sent_response message_sid, st2))"
  using assms by (simp add: handler_def passes_gate_def Let_def)

lemma handler_deduped:
  assumes "passes_gate ex ctx event p"
    and "markAsProcessedIfNew ex ctx (buildDedupeKey (sha256_hex ex) p) st = (Inr False, st1)"
  shows "handler ex ctx event st = (deduped_response, st1)"
  using assms by (simp add: handler_passes_gate)

lemma handler_store_error:
  assumes "passes_gate ex ctx event p"
    and "markAsProcessedIfNew ex ctx (buildDedupeKey (sha256_hex ex) p) st = (Inl error, st1)"
  shows "handler ex ctx event st = (internal_error_response, st1)"
  using assms by (simp add: handler_passes_gate)

lemma handler_transport_calls:
  "transport_calls (calls (snd (handler ex ctx event st))) \<le> transport_calls (calls st) + 2"
proof (cases "\<exists>p. passes_gate ex ctx event p")
  case False
  let ?auth = "isAuthorizedRequest event (env_value (ctx ''WEBHOOK_SECRET''))"
  let ?below = "\<lambda>p. int (score (scorePayload p))
                      < getDetectorThreshold (env_value (ctx ''DETECTOR_THRESHOLD''))"
  let ?client = "new_client ex (env_value (ctx ''TWILIO_ACCOUNT_SID''))
                   (env_value (ctx ''TWILIO_AUTH_TOKEN''))"
  from False consider
      error where "?auth = Inl error"
    | "?auth = Inr False"
    | error where "?auth = Inr True" "parsePayload event = Inl error"
    | p where "?auth = Inr True" "parsePayload event = Inr p" "?below p"
    | p where "?auth = Inr True" "parsePayload event = Inr p" "\<not> ?below p"
        "\<not> ok (assertSendConfig ctx)"
    | p error where "?auth = Inr True" "parsePayload event = Inr p" "\<not> ?below p"
        "ok (assertSendConfig ctx)" "?client = Some error"
    unfolding passes_gate_def
    by (cases ?auth; cases "parsePayload event"; cases ?client) auto
  then show ?thesis
  proof cases
    case 1
    then show ?thesis by (simp add: handler_auth_throws)
  next
    case 2
    then show ?thesis by (simp add: handler_unauthorized)
  next
    case 3
    then show ?thesis by (simp add: handler_parse_throws)
  next
    case 4
    then show ?thesis by (simp add: handler_ignored)
  next
    case 5
    then show ?thesis by (simp add: handler_missing_env)
  next
    case 6
    then show ?thesis by (simp add: handler_client_error)
  qed
next
  case True
  then obtain p where gate: "passes_gate ex ctx event p" by blast
  let ?k = "buildDedupeKey (sha256_hex ex) p"
  obtain r st1 where m: "markAsProcessedIfNew ex ctx ?k st = (r, st1)"
    by (cases "markAsProcessedIfNew ex ctx ?k st")
  then have t1: "transport_calls (calls st1) = transport_calls (calls st)"
    using markAsProcessedIfNew_transport [of ex ctx ?k st] by simp
  let ?params = "\<lparr>msg_from = env_value (ctx ''TWILIO_WHATSAPP_FROM''),
                  msg_to = env_value (ctx ''TWILIO_WHATSAPP_TO''),
                  msg_body = buildWhatsAppBody (invite_marker ex) p\<rparr>"
  obtain r2 st2 where s: "sendWithRetry ex ?params st1 = (r2, st2)"
    by (cases "sendWithRetry ex ?params st1")
  then have t2: "transport_calls (calls st2) \<le> transport_calls (calls st) + 2"
    using sendWithRetry_calls [of ex ?params st1] t1 by simp
  show ?thesis
    using t1 t2
    by (simp add: handler_passes_gate [OF gate] m s split: sum.splits)
qed

text \<open>
  Claim C3. A failure is transient exactly when its status (\<open>status\<close>, or \<open>statusCode\<close>
  when \<open>status\<close> is absent or 0) is 429 or lies in [500, 600). The sender submits once; on
  a transient failure it waits 800 ms and submits once more, returning whatever the
  second submission gives; a failure that is not transient is returned without a retry.
  So the sender submits at most twice, and so does the handler for one request.
\<close>

theorem sendWithRetry_retries_once:
  "isTransientError error
     = (\<exists>code. status_or_statusCode error = Some code
           \<and> (code = 429 \<or> (500 \<le> code \<and> code < 600)))
   \<and> (messages_create ex (transport_calls (calls st)) params = Inr message \<longrightarrow>
        sendWithRetry ex params st
        = (Inr message, st\<lparr>calls := calls st @ [CreateMessage params]\<rparr>))
   \<and> (messages_create ex (transport_calls (calls st)) params = Inl error
        \<and> \<not> isTransientError error \<longrightarrow>
        sendWithRetry ex params st
        = (Inl error, st\<lparr>calls := calls st @ [CreateMessage params]\<rparr>))
   \<and> (messages_create ex (transport_calls (calls st)) params = Inl error
        \<and> isTransientError error \<longrightarrow>
        sendWithRetry ex params st
        = (messages_create ex (Suc (transport_calls (calls st))) params,
           st\<lparr>calls := calls st @ [CreateMessage params, Sleep 800, CreateMessage params]\<rparr>))
   \<and> transport_calls (calls (snd (sendWithRetry ex params st)))
        \<le> transport_calls (calls st) + 2
   \<and> transport_calls (calls (snd (handler ex ctx event st)))
        \<le> transport_calls (calls st) + 2"
  using isTransientError_iff [of error] sendWithRetry_success [of ex st params message]
    sendWithRetry_permanent [of ex st params error]
    sendWithRetry_transient [of ex st params error] sendWithRetry_calls [of ex params st]
    handler_transport_calls [of ex ctx event st]
  by blast

theorem sendWithRetry_retries_once_witness:
  "isTransientError (api_error 503)
   \<and> sendWithRetry flaky_world example_params initial_state
       = (Inr ''SM2'',
          initial_state\<lparr>calls := [CreateMessage example_params, Sleep 800,
                                   CreateMessage example_params]\<rparr>)
   \<and> \<not> isTransientError (api_error 400)
   \<and> sendWithRetry (flaky_world\<lparr>messages_create := (\<lambda>n params. Inl (api_error 400))\<rparr>)
         example_params initial_state
       = (Inl (api_error 400), initial_state\<lparr>calls := [CreateMessage example_params]\<rparr>)"
proof -
  have s: "status_or_statusCode (api_error 503) = Some 503"
    "status_or_statusCode (api_error 400) = Some 400"
    by (simp_all add: status_or_statusCode_def api_error_def)
  have t: "isTransientError (api_error 503)"
    using sendWithRetry_retries_once [of "api_error 503"] s by simp
  have n: "\<not> isTransientError (api_error 400)"
    using sendWithRetry_retries_once [of "api_error 400"] s by simp
  have z: "transport_calls (calls initial_state) = 0"
    by (simp add: initial_state_def transport_calls_def)
  have "messages_create flaky_world (transport_calls (calls initial_state)) example_params
        = Inl (api_error 503)"
    by (simp add: z flaky_world_def)
  with t have r: "sendWithRetry flaky_world example_params initial_state
        = (messages_create flaky_world (Suc (transport_calls (calls initial_state))) example_params,
           initial_state\<lparr>calls := calls initial_state
              @ [CreateMessage example_params, Sleep 800, CreateMessage example_params]\<rparr>)"
    using sendWithRetry_retries_once [of "api_error 503" flaky_world initial_state example_params]
    by blast
  let ?w = "flaky_world\<lparr>messages_create := (\<lambda>n params. Inl (api_error 400))\<rparr>"
  have "messages_create ?w (transport_calls (calls initial_state)) example_params
        = Inl (api_error 400)"
    by simp
  with n have p: "sendWithRetry ?w example_params initial_state
        = (Inl (api_error 400),
           initial_state\<lparr>calls := calls initial_state @ [CreateMessage example_params]\<rparr>)"
    using sendWithRetry_retries_once [of "api_error 400" ?w initial_state example_params]
    by blast
  have c: "calls initial_state = []" by (simp add: initial_state_def)
  have m: "messages_create flaky_world (Suc (transport_calls [])) example_params = Inr ''SM2''"
    by (simp add: flaky_world_def)
  show ?thesis
    using t n r p by (simp add: c m)
qed


section \<open>The example requests\<close>

lemma example_contexts:
  "unconfigured_context ''WEBHOOK_SECRET'' = Some ''s3cret''"
  "unconfigured_context ''DETECTOR_THRESHOLD'' = None"
  "configured_context ''WEBHOOK_SECRET'' = Some ''s3cret''"
  "configured_context ''DETECTOR_THRESHOLD'' = None"
  "configured_context ''TWILIO_ACCOUNT_SID'' = Some ''AC1''"
  "configured_context ''TWILIO_AUTH_TOKEN'' = Some ''token''"
  "configured_context ''TWILIO_SYNC_SERVICE_SID'' = None"
  by (simp_all add: unconfigured_context_def configured_context_def context_of_def)

lemma example_configs:
  "\<not> ok (assertSendConfig unconfigured_context)"
  "ok (assertSendConfig configured_context)"
  by (simp_all add: assertSendConfig_def unconfigured_context_def configured_context_def
      context_of_def cleanString_def trim_def is_ws_def)

lemma example_authorized:
  "isAuthorizedRequest invite_event (JStr ''s3cret'') = Inr True"
  "isAuthorizedRequest newsletter_event (JStr ''s3cret'') = Inr True"
  "isAuthorizedRequest object_subject_event (JStr ''s3cret'') = Inr True"
  by (simp_all add: invite_event_def newsletter_event_def object_subject_event_def
      isAuthorizedRequest_def request_headers_def js_or_def getHeader_def cleanString_def
      trim_def is_ws_def toLowerCase_def lower_char_def)

lemma invite_parsed: "parsePayload invite_event = Inr invite_payload"
  by (simp add: parsePayload_def then_clean_def payload_of_def raw_identifier_def
      invite_event_def invite_payload_def js_or_def cleanString_def trim_def is_ws_def
      DEFAULT_SOURCE_def)

lemma newsletter_parsed: "parsePayload newsletter_event = Inr newsletter_payload"
  by (simp add: parsePayload_def then_clean_def payload_of_def raw_identifier_def
      newsletter_event_def newsletter_payload_def js_or_def cleanString_def trim_def is_ws_def
      DEFAULT_SOURCE_def)

lemma object_subject_throws: "parsePayload object_subject_event = Inl TypeError"
  by (simp add: parsePayload_def then_clean_def payload_of_def raw_identifier_def
      object_subject_event_def js_or_def cleanString_def trim_def is_ws_def)

lemma invite_score: "score (scorePayload invite_payload) = 3"
proof -
  have "toLowerCase (''Interview invite from recruiter'' @ '' '' @ [] @ '' '' @ [])
        = ''interview invite from recruiter  ''"
    by (simp add: toLowerCase_def lower_char_def char_of_bits)
  then show ?thesis
    unfolding invite_payload_def scorePayload_def by (simp add: KEYWORDS_def)
qed

lemma newsletter_score: "score (scorePayload newsletter_payload) = 0"
proof -
  have "toLowerCase (''Weekly news'' @ '' '' @ [] @ '' '' @ [])
        = ''weekly news  ''"
    by (simp add: toLowerCase_def lower_char_def char_of_bits)
  then show ?thesis
    unfolding newsletter_payload_def scorePayload_def by (simp add: KEYWORDS_def)
qed

lemma invite_key: "buildDedupeKey h invite_payload = ''email:m1''"
  by (simp add: invite_payload_def buildDedupeKey_def)

lemma duplicate_world_resolve:
  "resolveSyncServiceSid duplicate_world configured_context initial_state
   = (Inr ''IS1'', \<lparr>calls = [ListServices 20], cachedSyncServiceSid = Some ''IS1''\<rparr>)"
  by (simp add: resolveSyncServiceSid_def list_and_pick_service_def example_contexts
      cleanString_def duplicate_world_def initial_state_def record_call_def Let_def)

lemma flaky_world_resolve:
  "resolveSyncServiceSid flaky_world configured_context initial_state
   = (Inr ''IS1'', \<lparr>calls = [ListServices 20], cachedSyncServiceSid = Some ''IS1''\<rparr>)"
  by (simp add: resolveSyncServiceSid_def list_and_pick_service_def example_contexts
      cleanString_def flaky_world_def initial_state_def record_call_def Let_def)

lemma invite_passes_gate:
  "passes_gate duplicate_world configured_context invite_event invite_payload"
  by (simp add: passes_gate_def example_contexts example_authorized invite_parsed invite_score
      getDetectorThreshold_undefined example_configs duplicate_world_def)

lemma duplicate_world_marks:
  "markAsProcessedIfNew duplicate_world configured_context ''email:m1'' initial_state
   = (Inr False,
      \<lparr>calls = [ListServices 20, FetchDocument ''IS1'' ''email:m1''],
       cachedSyncServiceSid = Some ''IS1''\<rparr>)"
proof -
  have "documents_fetch duplicate_world ''IS1'' ''email:m1'' = None"
    by (simp add: duplicate_world_def)
  then show ?thesis
    using markAsProcessedIfNew_found [OF duplicate_world_resolve]
    by (simp add: record_call_def)
qed

section \<open>Deduplication and configuration in the handler\<close>

text \<open>
  Claim C2. The dedup step resolves the Sync service and then fetches the record of the
  key. Found: not new (the handler answers \<open>deduped\<close>), and nothing is created.
  Not found (status 404): a record is created with a time to live of 86400 seconds;
  created: new; refused with status 409: not new. Every other error of the store is
  returned as the error, and the handler answers \<open>internal_error\<close>: an error of the fetch
  other than 404, an error of the creation other than 409, and an error of listing the
  services or of creating one while the service is resolved, which is the only way the
  resolution fails. The step never calls the transport.
\<close>

theorem markAsProcessedIfNew_outcomes:
  "(resolveSyncServiceSid ex ctx st = (Inr serviceSid, st1)
      \<and> documents_fetch ex serviceSid k = None \<longrightarrow>
      markAsProcessedIfNew ex ctx k st
      = (Inr False, record_call (FetchDocument serviceSid k) st1))
   \<and> (resolveSyncServiceSid ex ctx st = (Inr serviceSid, st1)
      \<and> documents_fetch ex serviceSid k = Some error \<and> status error = Some 404
      \<and> documents_create ex serviceSid k (24 * 60 * 60) = None \<longrightarrow>
      markAsProcessedIfNew ex ctx k st
      = (Inr True, record_call (CreateDocument serviceSid k (24 * 60 * 60))
                     (record_call (FetchDocument serviceSid k) st1)))
   \<and> (resolveSyncServiceSid ex ctx st = (Inr serviceSid, st1)
      \<and> documents_fetch ex serviceSid k = Some error \<and> status error = Some 404
      \<and> documents_create ex serviceSid k (24 * 60 * 60) = Some error2
      \<and> status error2 = Some 409 \<longrightarrow>
      markAsProcessedIfNew ex ctx k st
      = (Inr False, record_call (CreateDocument serviceSid k (24 * 60 * 60))
                      (record_call (FetchDocument serviceSid k) st1)))
   \<and> (resolveSyncServiceSid ex ctx st = (Inr serviceSid, st1)
      \<and> documents_fetch ex serviceSid k = Some error \<and> status error \<noteq> Some 404 \<longrightarrow>
      markAsProcessedIfNew ex ctx k st
      = (Inl error, record_call (FetchDocument serviceSid k) st1))
   \<and> (resolveSyncServiceSid ex ctx st = (Inr serviceSid, st1)
      \<and> documents_fetch ex serviceSid k = Some error \<and> status error = Some 404
      \<and> documents_create ex serviceSid k (24 * 60 * 60) = Some error2
      \<and> status error2 \<noteq> Some 409 \<longrightarrow>
      markAsProcessedIfNew ex ctx k st
      = (Inl error2, record_call (CreateDocument serviceSid k (24 * 60 * 60))
                       (record_call (FetchDocument serviceSid k) st1)))
   \<and> (resolveSyncServiceSid ex ctx st = (Inl error, st1) \<longrightarrow>
      markAsProcessedIfNew ex ctx k st = (Inl error, st1)
      \<and> (services_list ex = Inl error
          \<or> (services_list ex = Inr [] \<and> services_create ex SYNC_SERVICE_NAME = Inl error)))
   \<and> (cleanString (env_value (ctx ''TWILIO_SYNC_SERVICE_SID'')) = Inr []
      \<and> (cachedSyncServiceSid st = None \<or> cachedSyncServiceSid st = Some [])
      \<and> services_list ex = Inl error \<longrightarrow>
      markAsProcessedIfNew ex ctx k st = (Inl error, record_call (ListServices 20) st))
   \<and> (cleanString (env_value (ctx ''TWILIO_SYNC_SERVICE_SID'')) = Inr []
      \<and> (cachedSyncServiceSid st = None \<or> cachedSyncServiceSid st = Some [])
      \<and> services_list ex = Inr [] \<and> services_create ex SYNC_SERVICE_NAME = Inl error \<longrightarrow>
      markAsProcessedIfNew ex ctx k st
      = (Inl error, record_call (CreateService SYNC_SERVICE_NAME)
                      (record_call (ListServices 20) st)))
   \<and> (cleanString (env_value (ctx ''TWILIO_SYNC_SERVICE_SID'')) = Inr provided
      \<and> provided \<noteq> [] \<longrightarrow>
      resolveSyncServiceSid ex ctx st = (Inr provided, st))
   \<and> (cleanString (env_value (ctx ''TWILIO_SYNC_SERVICE_SID'')) = Inr []
      \<and> cachedSyncServiceSid st = Some cached \<and> cached \<noteq> [] \<longrightarrow>
      resolveSyncServiceSid ex ctx st = (Inr cached, st))
   \<and> transport_calls (calls (snd (markAsProcessedIfNew ex ctx k st)))
      = transport_calls (calls st)
   \<and> (passes_gate ex ctx event p
      \<and> markAsProcessedIfNew ex ctx (buildDedupeKey (sha256_hex ex) p) st
          = (Inr False, st') \<longrightarrow>
      handler ex ctx event st = (deduped_response, st'))
   \<and> (passes_gate ex ctx event p
      \<and> markAsProcessedIfNew ex ctx (buildDedupeKey (sha256_hex ex) p) st
          = (Inl error, st') \<longrightarrow>
      handler ex ctx event st = (internal_error_response, st'))"
proof -
  have ttl: "(24 * 60 * 60 :: nat) = 86400" by simp
  have listed: "resolveSyncServiceSid ex ctx st = list_and_pick_service ex st"
    if "cleanString (env_value (ctx ''TWILIO_SYNC_SERVICE_SID'')) = Inr []
        \<and> (cachedSyncServiceSid st = None \<or> cachedSyncServiceSid st = Some [])"
    using that by (simp add: resolve_lists)
  have c1: "resolveSyncServiceSid ex ctx st = (Inr serviceSid, st1)
      \<and> documents_fetch ex serviceSid k = None \<longrightarrow>
      markAsProcessedIfNew ex ctx k st
      = (Inr False, record_call (FetchDocument serviceSid k) st1)"
    using markAsProcessedIfNew_found [of ex ctx st serviceSid st1 k] by blast
  have c2: "resolveSyncServiceSid ex ctx st = (Inr serviceSid, st1)
      \<and> documents_fetch ex serviceSid k = Some error \<and> status error = Some 404
      \<and> documents_create ex serviceSid k 86400 = None \<longrightarrow>
      markAsProcessedIfNew ex ctx k st
      = (Inr True, record_call (CreateDocument serviceSid k 86400)
                     (record_call (FetchDocument serviceSid k) st1))"
    using markAsProcessedIfNew_created [of ex ctx st serviceSid st1 k error] by blast
  have c3: "resolveSyncServiceSid ex ctx st = (Inr serviceSid, st1)
      \<and> documents_fetch ex serviceSid k = Some error \<and> status error = Some 404
      \<and> documents_create ex serviceSid k 86400 = Some error2
      \<and> status error2 = Some 409 \<longrightarrow>
      markAsProcessedIfNew ex ctx k st
      = (Inr False, record_call (CreateDocument serviceSid k 86400)
                      (record_call (FetchDocument serviceSid k) st1))"
    using markAsProcessedIfNew_conflict [of ex ctx st serviceSid st1 k error error2] by blast
  have c4: "resolveSyncServiceSid ex ctx st = (Inr serviceSid, st1)
      \<and> documents_fetch ex serviceSid k = Some error \<and> status error \<noteq> Some 404 \<longrightarrow>
      markAsProcessedIfNew ex ctx k st
      = (Inl error, record_call (FetchDocument serviceSid k) st1)"
    using markAsProcessedIfNew_fetch_error [of ex ctx st serviceSid st1 k error] by blast
  have c5: "resolveSyncServiceSid ex ctx st = (Inr serviceSid, st1)
      \<and> documents_fetch ex serviceSid k = Some error \<and> status error = Some 404
      \<and> documents_create ex serviceSid k 86400 = Some error2
      \<and> status error2 \<noteq> Some 409 \<longrightarrow>
      markAsProcessedIfNew ex ctx k st
      = (Inl error2, record_call (CreateDocument serviceSid k 86400)
                       (record_call (FetchDocument serviceSid k) st1))"
    using markAsProcessedIfNew_create_error [of ex ctx st serviceSid st1 k error error2]
    by blast
  have c6: "resolveSyncServiceSid ex ctx st = (Inl error, st1) \<longrightarrow>
      markAsProcessedIfNew ex ctx k st = (Inl error, st1)
      \<and> (services_list ex = Inl error
          \<or> (services_list ex = Inr [] \<and> services_create ex SYNC_SERVICE_NAME = Inl error))"
    using markAsProcessedIfNew_resolve_error [of ex ctx st error st1 k]
      resolve_error [of ex ctx st error st1]
    by blast
  have c7: "cleanString (env_value (ctx ''TWILIO_SYNC_SERVICE_SID'')) = Inr []
      \<and> (cachedSyncServiceSid st = None \<or> cachedSyncServiceSid st = Some [])
      \<and> services_list ex = Inl error \<longrightarrow>
      markAsProcessedIfNew ex ctx k st = (Inl error, record_call (ListServices 20) st)"
  proof (intro impI)
    assume h: "cleanString (env_value (ctx ''TWILIO_SYNC_SERVICE_SID'')) = Inr []
      \<and> (cachedSyncServiceSid st = None \<or> cachedSyncServiceSid st = Some [])
      \<and> services_list ex = Inl error"
    then have "resolveSyncServiceSid ex ctx st
               = (Inl error, record_call (ListServices 20) st)"
      using listed by (simp add: list_error)
    then show "markAsProcessedIfNew ex ctx k st
               = (Inl error, record_call (ListServices 20) st)"
      by (rule markAsProcessedIfNew_resolve_error)
  qed
  have c8: "cleanString (env_value (ctx ''TWILIO_SYNC_SERVICE_SID'')) = Inr []
      \<and> (cachedSyncServiceSid st = None \<or> cachedSyncServiceSid st = Some [])
      \<and> services_list ex = Inr [] \<and> services_create ex SYNC_SERVICE_NAME = Inl error \<longrightarrow>
      markAsProcessedIfNew ex ctx k st
      = (Inl error, record_call (CreateService SYNC_SERVICE_NAME)
                      (record_call (ListServices 20) st))"
  proof (intro impI)
    assume h: "cleanString (env_value (ctx ''TWILIO_SYNC_SERVICE_SID'')) = Inr []
      \<and> (cachedSyncServiceSid st = None \<or> cachedSyncServiceSid st = Some [])
      \<and> services_list ex = Inr [] \<and> services_create ex SYNC_SERVICE_NAME = Inl error"
    then have "resolveSyncServiceSid ex ctx st
               = (Inl error, record_call (CreateService SYNC_SERVICE_NAME)
                               (record_call (ListServices 20) st))"
      using listed by (simp add: list_create_error)
    then show "markAsProcessedIfNew ex ctx k st
               = (Inl error, record_call (CreateService SYNC_SERVICE_NAME)
                               (record_call (ListServices 20) st))"
      by (rule markAsProcessedIfNew_resolve_error)
  qed
  have c9: "cleanString (env_value (ctx ''TWILIO_SYNC_SERVICE_SID'')) = Inr provided
      \<and> provided \<noteq> [] \<longrightarrow>
      resolveSyncServiceSid ex ctx st = (Inr provided, st)"
    using resolve_provided [of ctx provided ex st] by blast
  have c10: "cleanString (env_value (ctx ''TWILIO_SYNC_SERVICE_SID'')) = Inr []
      \<and> cachedSyncServiceSid st = Some cached \<and> cached \<noteq> [] \<longrightarrow>
      resolveSyncServiceSid ex ctx st = (Inr cached, st)"
    using resolve_cached [of ctx st cached ex] by blast
  have c11: "transport_calls (calls (snd (markAsProcessedIfNew ex ctx k st)))
      = transport_calls (calls st)"
    by (rule markAsProcessedIfNew_transport)
  have c12: "passes_gate ex ctx event p
      \<and> markAsProcessedIfNew ex ctx (buildDedupeKey (sha256_hex ex) p) st
          = (Inr False, st') \<longrightarrow>
      handler ex ctx event st = (deduped_response, st')"
    using handler_deduped [of ex ctx event p st st'] by blast
  have c13: "passes_gate ex ctx event p
      \<and> markAsProcessedIfNew ex ctx (buildDedupeKey (sha256_hex ex) p) st
          = (Inl error, st') \<longrightarrow>
      handler ex ctx event st = (internal_error_response, st')"
    using handler_store_error [of ex ctx event p st error st'] by blast
  show ?thesis
    unfolding ttl
    using c1 c2 c3 c4 c5 c6 c7 c8 c9 c10 c11 c12 c13 by (intro conjI)
qed

theorem markAsProcessedIfNew_outcomes_witness:
  "markAsProcessedIfNew duplicate_world configured_context ''email:m1'' initial_state
     = (Inr False,
        \<lparr>calls = [ListServices 20, FetchDocument ''IS1'' ''email:m1''],
         cachedSyncServiceSid = Some ''IS1''\<rparr>)
   \<and> markAsProcessedIfNew flaky_world configured_context ''email:m1'' initial_state
     = (Inr True,
        \<lparr>calls = [ListServices 20, FetchDocument ''IS1'' ''email:m1'',
                  CreateDocument ''IS1'' ''email:m1'' 86400],
         cachedSyncServiceSid = Some ''IS1''\<rparr>)
   \<and> markAsProcessedIfNew
         (flaky_world\<lparr>documents_create := (\<lambda>serviceSid key ttl. Some (api_error 409))\<rparr>)
         configured_context ''email:m1'' initial_state
     = (Inr False,
        \<lparr>calls = [ListServices 20, FetchDocument ''IS1'' ''email:m1'',
                  CreateDocument ''IS1'' ''email:m1'' 86400],
         cachedSyncServiceSid = Some ''IS1''\<rparr>)
   \<and> markAsProcessedIfNew
         (flaky_world\<lparr>documents_fetch := (\<lambda>serviceSid key. Some (api_error 500))\<rparr>)
         configured_context ''email:m1'' initial_state
     = (Inl (api_error 500),
        \<lparr>calls = [ListServices 20, FetchDocument ''IS1'' ''email:m1''],
         cachedSyncServiceSid = Some ''IS1''\<rparr>)
   \<and> markAsProcessedIfNew
         (flaky_world\<lparr>documents_create := (\<lambda>serviceSid key ttl. Some (api_error 500))\<rparr>)
         configured_context ''email:m1'' initial_state
     = (Inl (api_error 500),
        \<lparr>calls = [ListServices 20, FetchDocument ''IS1'' ''email:m1'',
                  CreateDocument ''IS1'' ''email:m1'' 86400],
         cachedSyncServiceSid = Some ''IS1''\<rparr>)
   \<and> markAsProcessedIfNew (flaky_world\<lparr>services_list := Inl (api_error 503)\<rparr>)
         configured_context ''email:m1'' initial_state
     = (Inl (api_error 503), \<lparr>calls = [ListServices 20], cachedSyncServiceSid = None\<rparr>)
   \<and> markAsProcessedIfNew
         (flaky_world\<lparr>services_list := Inr [],
                       services_create := (\<lambda>name. Inl (api_error 401))\<rparr>)
         configured_context ''email:m1'' initial_state
     = (Inl (api_error 401),
        \<lparr>calls = [ListServices 20, CreateService ''whatsapp-naukri-zapier-twilio''],
         cachedSyncServiceSid = None\<rparr>)
   \<and> handler duplicate_world configured_context invite_event initial_state
     = (deduped_response,
        \<lparr>calls = [ListServices 20, FetchDocument ''IS1'' ''email:m1''],
         cachedSyncServiceSid = Some ''IS1''\<rparr>)"
proof -
  let ?st1 = "\<lparr>calls = [ListServices 20], cachedSyncServiceSid = Some ''IS1''\<rparr>"
  let ?st2 = "\<lparr>calls = [ListServices 20, FetchDocument ''IS1'' ''email:m1''],
               cachedSyncServiceSid = Some ''IS1''\<rparr>"
  let ?conflict = "flaky_world\<lparr>documents_create := (\<lambda>serviceSid key ttl. Some (api_error 409))\<rparr>"
  let ?down = "flaky_world\<lparr>documents_fetch := (\<lambda>serviceSid key. Some (api_error 500))\<rparr>"
  let ?full = "flaky_world\<lparr>documents_create := (\<lambda>serviceSid key ttl. Some (api_error 500))\<rparr>"
  let ?nolist = "flaky_world\<lparr>services_list := Inl (api_error 503)\<rparr>"
  let ?nocreate = "flaky_world\<lparr>services_list := Inr [],
                                 services_create := (\<lambda>name. Inl (api_error 401))\<rparr>"
  have resolve: "resolveSyncServiceSid w configured_context initial_state = (Inr ''IS1'', ?st1)"
    if "services_list w = services_list flaky_world" for w
    using that
    by (simp add: resolveSyncServiceSid_def list_and_pick_service_def example_contexts
        cleanString_def flaky_world_def initial_state_def record_call_def Let_def)
  have st: "status (api_error 404) = Some 404" "status (api_error 409) = Some 409"
    "status (api_error 500) \<noteq> Some 404" "status (api_error 500) \<noteq> Some 409"
    by (simp_all add: api_error_def)
  have unset: "cleanString (env_value (configured_context ''TWILIO_SYNC_SERVICE_SID'')) = Inr []
        \<and> (cachedSyncServiceSid initial_state = None
            \<or> cachedSyncServiceSid initial_state = Some [])"
    by (simp add: example_contexts cleanString_def initial_state_def)
  have w1: "markAsProcessedIfNew duplicate_world configured_context ''email:m1'' initial_state
            = (Inr False, record_call (FetchDocument ''IS1'' ''email:m1'') ?st1)"
  proof -
    have "resolveSyncServiceSid duplicate_world configured_context initial_state
            = (Inr ''IS1'', ?st1)
          \<and> documents_fetch duplicate_world ''IS1'' ''email:m1'' = None"
      by (simp add: duplicate_world_resolve) (simp add: duplicate_world_def)
    then show ?thesis
      using markAsProcessedIfNew_outcomes
        [of duplicate_world configured_context initial_state "''IS1''" ?st1 "''email:m1''"
          "api_error 0" "api_error 0" "[]" "[]" invite_event invite_payload "initial_state",
          THEN conjunct1]
      by blast
  qed
  have w2: "markAsProcessedIfNew flaky_world configured_context ''email:m1'' initial_state
            = (Inr True, record_call (CreateDocument ''IS1'' ''email:m1'' (24 * 60 * 60))
                           (record_call (FetchDocument ''IS1'' ''email:m1'') ?st1))"
  proof -
    have "resolveSyncServiceSid flaky_world configured_context initial_state
            = (Inr ''IS1'', ?st1)
          \<and> documents_fetch flaky_world ''IS1'' ''email:m1'' = Some (api_error 404)
          \<and> status (api_error 404) = Some 404
          \<and> documents_create flaky_world ''IS1'' ''email:m1'' (24 * 60 * 60) = None"
      by (simp add: flaky_world_resolve st) (simp add: flaky_world_def)
    then show ?thesis
      using markAsProcessedIfNew_outcomes
        [of flaky_world configured_context initial_state "''IS1''" ?st1 "''email:m1''"
          "api_error 404" "api_error 0" "[]" "[]" invite_event invite_payload "initial_state",
          THEN conjunct2, THEN conjunct1]
      by blast
  qed
  have w3: "markAsProcessedIfNew ?conflict configured_context ''email:m1'' initial_state
            = (Inr False, record_call (CreateDocument ''IS1'' ''email:m1'' (24 * 60 * 60))
                            (record_call (FetchDocument ''IS1'' ''email:m1'') ?st1))"
  proof -
    have "resolveSyncServiceSid ?conflict configured_context initial_state
            = (Inr ''IS1'', ?st1)
          \<and> documents_fetch ?conflict ''IS1'' ''email:m1'' = Some (api_error 404)
          \<and> status (api_error 404) = Some 404
          \<and> documents_create ?conflict ''IS1'' ''email:m1'' (24 * 60 * 60)
              = Some (api_error 409)
          \<and> status (api_error 409) = Some 409"
      by (simp add: resolve st) (simp add: flaky_world_def)
    then show ?thesis
      using markAsProcessedIfNew_outcomes
        [of ?conflict configured_context initial_state "''IS1''" ?st1 "''email:m1''"
          "api_error 404" "api_error 409" "[]" "[]" invite_event invite_payload "initial_state",
          THEN conjunct2, THEN conjunct2, THEN conjunct1]
      by blast
  qed
  have w4: "markAsProcessedIfNew ?down configured_context ''email:m1'' initial_state
            = (Inl (api_error 500), record_call (FetchDocument ''IS1'' ''email:m1'') ?st1)"
  proof -
    have "resolveSyncServiceSid ?down configured_context initial_state
            = (Inr ''IS1'', ?st1)
          \<and> documents_fetch ?down ''IS1'' ''email:m1'' = Some (api_error 500)
          \<and> status (api_error 500) \<noteq> Some 404"
      by (simp add: resolve st)
    then show ?thesis
      using markAsProcessedIfNew_outcomes
        [of ?down configured_context initial_state "''IS1''" ?st1 "''email:m1''"
          "api_error 500" "api_error 0" "[]" "[]" invite_event invite_payload "initial_state",
          THEN conjunct2, THEN conjunct2, THEN conjunct2, THEN conjunct1]
      by blast
  qed
  have w5: "markAsProcessedIfNew ?full configured_context ''email:m1'' initial_state
            = (Inl (api_error 500),
               record_call (CreateDocument ''IS1'' ''email:m1'' (24 * 60 * 60))
                 (record_call (FetchDocument ''IS1'' ''email:m1'') ?st1))"
  proof -
    have "resolveSyncServiceSid ?full configured_context initial_state
            = (Inr ''IS1'', ?st1)
          \<and> documents_fetch ?full ''IS1'' ''email:m1'' = Some (api_error 404)
          \<and> status (api_error 404) = Some 404
          \<and> documents_create ?full ''IS1'' ''email:m1'' (24 * 60 * 60)
              = Some (api_error 500)
          \<and> status (api_error 500) \<noteq> Some 409"
      by (simp add: resolve st) (simp add: flaky_world_def)
    then show ?thesis
      using markAsProcessedIfNew_outcomes
        [of ?full configured_context initial_state "''IS1''" ?st1 "''email:m1''"
          "api_error 404" "api_error 500" "[]" "[]" invite_event invite_payload "initial_state",
          THEN conjunct2, THEN conjunct2, THEN conjunct2, THEN conjunct2, THEN conjunct1]
      by blast
  qed
  have w7: "markAsProcessedIfNew ?nolist configured_context ''email:m1'' initial_state
            = (Inl (api_error 503), record_call (ListServices 20) initial_state)"
  proof -
    have "services_list ?nolist = Inl (api_error 503)" by simp
    with unset show ?thesis
      using markAsProcessedIfNew_outcomes
        [of ?nolist configured_context initial_state "''IS1''" ?st1 "''email:m1''"
          "api_error 503" "api_error 0" "[]" "[]" invite_event invite_payload "initial_state",
          THEN conjunct2, THEN conjunct2, THEN conjunct2, THEN conjunct2, THEN conjunct2, THEN conjunct2, THEN conjunct1]
      by blast
  qed
  have w8: "markAsProcessedIfNew ?nocreate configured_context ''email:m1'' initial_state
            = (Inl (api_error 401),
               record_call (CreateService SYNC_SERVICE_NAME)
                 (record_call (ListServices 20) initial_state))"
  proof -
    have "services_list ?nocreate = Inr []
          \<and> services_create ?nocreate SYNC_SERVICE_NAME = Inl (api_error 401)"
      by simp
    with unset show ?thesis
      using markAsProcessedIfNew_outcomes
        [of ?nocreate configured_context initial_state "''IS1''" ?st1 "''email:m1''"
          "api_error 401" "api_error 0" "[]" "[]" invite_event invite_payload "initial_state",
          THEN conjunct2, THEN conjunct2, THEN conjunct2, THEN conjunct2, THEN conjunct2, THEN conjunct2, THEN conjunct2, THEN conjunct1]
      by blast
  qed
  have w6: "handler duplicate_world configured_context invite_event initial_state
            = (deduped_response, ?st2)"
  proof -
    have "passes_gate duplicate_world configured_context invite_event invite_payload
      \<and> markAsProcessedIfNew duplicate_world configured_context
            (buildDedupeKey (sha256_hex duplicate_world) invite_payload)
            initial_state
          = (Inr False, ?st2)"
      by (simp add: invite_passes_gate invite_key duplicate_world_marks)
    then show ?thesis
      using markAsProcessedIfNew_outcomes
        [of duplicate_world configured_context initial_state "''IS1''" ?st1 "''email:m1''"
          "api_error 0" "api_error 0" "[]" "[]" invite_event invite_payload "?st2",
          THEN conjunct2, THEN conjunct2, THEN conjunct2, THEN conjunct2, THEN conjunct2, THEN conjunct2, THEN conjunct2, THEN conjunct2, THEN conjunct2, THEN conjunct2, THEN conjunct2, THEN conjunct1]
      by blast
  qed
  show ?thesis
    using w1 w2 w3 w4 w5 w6 w7 w8
    by (simp add: record_call_def initial_state_def SYNC_SERVICE_NAME_def)
qed

lemma assertSendConfig_ok:
  "ok (assertSendConfig ctx)
   = (cleanString (env_value (ctx ''TWILIO_ACCOUNT_SID'')) \<noteq> Inr []
      \<and> cleanString (env_value (ctx ''TWILIO_AUTH_TOKEN'')) \<noteq> Inr []
      \<and> cleanString (env_value (ctx ''TWILIO_WHATSAPP_FROM'')) \<noteq> Inr []
      \<and> cleanString (env_value (ctx ''TWILIO_WHATSAPP_TO'')) \<noteq> Inr [])"
  by (simp add: assertSendConfig_def Let_def)

text \<open>
  Claim C1, as stated, fails in its second half. The same authorized invite, whose key
  the store already holds, is answered 200 \<open>deduped\<close> when the delivery variables are set
  and 500 \<open>missing_env\<close>, with no call to the store, when they are not: the configuration
  is checked before the store is consulted.
\<close>

theorem handler_missing_env_counterexample:
  "handler duplicate_world configured_context invite_event initial_state
     = (deduped_response,
        \<lparr>calls = [ListServices 20, FetchDocument ''IS1'' ''email:m1''],
         cachedSyncServiceSid = Some ''IS1''\<rparr>)
   \<and> handler duplicate_world unconfigured_context invite_event initial_state
     = (missing_env_response, initial_state)
   \<and> res_statusCode missing_env_response = 500
   \<and> res_statusCode deduped_response = 200"
proof -
  have a: "handler duplicate_world configured_context invite_event initial_state
     = (deduped_response,
        \<lparr>calls = [ListServices 20, FetchDocument ''IS1'' ''email:m1''],
         cachedSyncServiceSid = Some ''IS1''\<rparr>)"
    by (rule handler_deduped [OF invite_passes_gate])
      (simp add: invite_key duplicate_world_marks)
  have b: "handler duplicate_world unconfigured_context invite_event initial_state
     = (missing_env_response, initial_state)"
    by (rule handler_missing_env [of _ _ invite_payload])
      (simp_all add: example_contexts example_authorized invite_parsed invite_score
        getDetectorThreshold_undefined example_configs)
  show ?thesis
    using a b
    by (simp add: missing_env_response_def deduped_response_def createJsonResponse_def)
qed

text \<open>
  Claim C1, amended. For every authorized request the delivery configuration is looked
  at only after the payload is normalized and its score has reached the threshold. A
  request below the threshold is answered 200 \<open>ignored\<close> with its score and no call is
  made, whatever the delivery variables hold. A request at or above the threshold with a
  delivery variable missing (unset, empty or white space) is answered 500 \<open>missing_env\<close>
  before the store is consulted and without any call, duplicate or not. With the four
  variables set (and the client built), a request whose key the store reports as present
  is answered 200 \<open>deduped\<close>. An authorized request whose payload cannot be normalized
  (\<open>parsePayload\<close> throws on a field that \<open>String\<close> cannot convert) is answered
  500 \<open>internal_error\<close>, whatever its keywords and the delivery variables.
\<close>

theorem handler_config_after_threshold:
  "(isAuthorizedRequest event (env_value (ctx ''WEBHOOK_SECRET'')) = Inr True
      \<and> parsePayload event = Inr p
      \<and> int (score (scorePayload p))
           < getDetectorThreshold (env_value (ctx ''DETECTOR_THRESHOLD'')) \<longrightarrow>
      handler ex ctx event st = (ignored_response (score (scorePayload p)), st))
   \<and> (isAuthorizedRequest event (env_value (ctx ''WEBHOOK_SECRET'')) = Inr True
      \<and> parsePayload event = Inr p
      \<and> int (score (scorePayload p))
           < getDetectorThreshold (env_value (ctx ''DETECTOR_THRESHOLD''))
      \<and> ctx' ''WEBHOOK_SECRET'' = ctx ''WEBHOOK_SECRET''
      \<and> ctx' ''DETECTOR_THRESHOLD'' = ctx ''DETECTOR_THRESHOLD'' \<longrightarrow>
      handler ex' ctx' event st = handler ex ctx event st)
   \<and> (isAuthorizedRequest event (env_value (ctx ''WEBHOOK_SECRET'')) = Inr True
      \<and> parsePayload event = Inr p
      \<and> \<not> int (score (scorePayload p))
             < getDetectorThreshold (env_value (ctx ''DETECTOR_THRESHOLD''))
      \<and> (cleanString (env_value (ctx ''TWILIO_ACCOUNT_SID'')) = Inr []
          \<or> cleanString (env_value (ctx ''TWILIO_AUTH_TOKEN'')) = Inr []
          \<or> cleanString (env_value (ctx ''TWILIO_WHATSAPP_FROM'')) = Inr []
          \<or> cleanString (env_value (ctx ''TWILIO_WHATSAPP_TO'')) = Inr []) \<longrightarrow>
      handler ex ctx event st = (missing_env_response, st))
   \<and> (passes_gate ex ctx event p
      \<and> markAsProcessedIfNew ex ctx (buildDedupeKey (sha256_hex ex) p) st
          = (Inr False, st') \<longrightarrow>
      handler ex ctx event st = (deduped_response, st'))
   \<and> (isAuthorizedRequest event (env_value (ctx ''WEBHOOK_SECRET'')) = Inr True
      \<and> parsePayload event = Inl error \<longrightarrow>
      handler ex ctx event st = (internal_error_response, st))
   \<and> (list_ex String_throws (payload_fields (payload_of event)) \<longrightarrow>
      parsePayload event = Inl TypeError)
   \<and> (\<not> list_ex String_throws (payload_fields (payload_of event)) \<longrightarrow>
      parsePayload event \<noteq> Inl error)"
proof (intro conjI impI)
  assume "isAuthorizedRequest event (env_value (ctx ''WEBHOOK_SECRET'')) = Inr True
      \<and> parsePayload event = Inr p
      \<and> int (score (scorePayload p))
           < getDetectorThreshold (env_value (ctx ''DETECTOR_THRESHOLD''))"
  then show "handler ex ctx event st = (ignored_response (score (scorePayload p)), st)"
    by (simp add: handler_ignored)
next
  assume a: "isAuthorizedRequest event (env_value (ctx ''WEBHOOK_SECRET'')) = Inr True
      \<and> parsePayload event = Inr p
      \<and> int (score (scorePayload p))
           < getDetectorThreshold (env_value (ctx ''DETECTOR_THRESHOLD''))
      \<and> ctx' ''WEBHOOK_SECRET'' = ctx ''WEBHOOK_SECRET''
      \<and> ctx' ''DETECTOR_THRESHOLD'' = ctx ''DETECTOR_THRESHOLD''"
  then have "handler ex ctx event st = (ignored_response (score (scorePayload p)), st)"
    by (simp add: handler_ignored)
  moreover from a have
    "handler ex' ctx' event st = (ignored_response (score (scorePayload p)), st)"
    by (simp add: handler_ignored)
  ultimately show "handler ex' ctx' event st = handler ex ctx event st"
    by simp
next
  assume a: "isAuthorizedRequest event (env_value (ctx ''WEBHOOK_SECRET'')) = Inr True
      \<and> parsePayload event = Inr p
      \<and> \<not> int (score (scorePayload p))
             < getDetectorThreshold (env_value (ctx ''DETECTOR_THRESHOLD''))
      \<and> (cleanString (env_value (ctx ''TWILIO_ACCOUNT_SID'')) = Inr []
          \<or> cleanString (env_value (ctx ''TWILIO_AUTH_TOKEN'')) = Inr []
          \<or> cleanString (env_value (ctx ''TWILIO_WHATSAPP_FROM'')) = Inr []
          \<or> cleanString (env_value (ctx ''TWILIO_WHATSAPP_TO'')) = Inr [])"
  then have "\<not> ok (assertSendConfig ctx)"
    unfolding assertSendConfig_ok by blast
  with a show "handler ex ctx event st = (missing_env_response, st)"
    using handler_missing_env [of event ctx p ex st] by blast
next
  assume "passes_gate ex ctx event p
      \<and> markAsProcessedIfNew ex ctx (buildDedupeKey (sha256_hex ex) p) st
          = (Inr False, st')"
  then show "handler ex ctx event st = (deduped_response, st')"
    using handler_deduped [of ex ctx event p st st'] by blast
next
  assume "isAuthorizedRequest event (env_value (ctx ''WEBHOOK_SECRET'')) = Inr True
      \<and> parsePayload event = Inl error"
  then show "handler ex ctx event st = (internal_error_response, st)"
    using handler_parse_throws [of event ctx error ex st] by blast
next
  assume "list_ex String_throws (payload_fields (payload_of event))"
  then show "parsePayload event = Inl TypeError"
    by (rule parsePayload_throws)
next
  assume "\<not> list_ex String_throws (payload_fields (payload_of event))"
  then show "parsePayload event \<noteq> Inl error"
    by (simp add: parsePayload_returns)
qed

theorem handler_config_after_threshold_witness:
  "handler duplicate_world unconfigured_context newsletter_event initial_state
     = (ignored_response 0, initial_state)
   \<and> handler flaky_world configured_context newsletter_event initial_state
     = handler duplicate_world unconfigured_context newsletter_event initial_state
   \<and> handler duplicate_world unconfigured_context invite_event initial_state
     = (missing_env_response, initial_state)
   \<and> handler duplicate_world configured_context invite_event initial_state
     = (deduped_response,
        \<lparr>calls = [ListServices 20, FetchDocument ''IS1'' ''email:m1''],
         cachedSyncServiceSid = Some ''IS1''\<rparr>)
   \<and> handler duplicate_world configured_context object_subject_event initial_state
     = (internal_error_response, initial_state)"
proof -
  let ?st' = "\<lparr>calls = [ListServices 20, FetchDocument ''IS1'' ''email:m1''],
               cachedSyncServiceSid = Some ''IS1''\<rparr>"
  note T1 = handler_config_after_threshold
    [of newsletter_event unconfigured_context newsletter_payload duplicate_world initial_state
      configured_context flaky_world initial_state TypeError]
  note T2 = handler_config_after_threshold
    [of invite_event unconfigured_context invite_payload duplicate_world initial_state
      unconfigured_context duplicate_world initial_state TypeError]
  note T3 = handler_config_after_threshold
    [of invite_event configured_context invite_payload duplicate_world initial_state
      configured_context duplicate_world ?st' TypeError]
  note T4 = handler_config_after_threshold
    [of object_subject_event configured_context invite_payload duplicate_world initial_state
      configured_context duplicate_world initial_state TypeError]
  have below: "isAuthorizedRequest newsletter_event
                 (env_value (unconfigured_context ''WEBHOOK_SECRET'')) = Inr True
      \<and> parsePayload newsletter_event = Inr newsletter_payload
      \<and> int (score (scorePayload newsletter_payload))
           < getDetectorThreshold (env_value (unconfigured_context ''DETECTOR_THRESHOLD''))"
    by (simp add: example_contexts example_authorized newsletter_parsed newsletter_score
        getDetectorThreshold_undefined)
  have w1: "handler duplicate_world unconfigured_context newsletter_event initial_state
     = (ignored_response (score (scorePayload newsletter_payload)), initial_state)"
    using below T1 [THEN conjunct1] by blast
  have same: "configured_context ''WEBHOOK_SECRET'' = unconfigured_context ''WEBHOOK_SECRET''
      \<and> configured_context ''DETECTOR_THRESHOLD'' = unconfigured_context ''DETECTOR_THRESHOLD''"
    by (simp add: example_contexts)
  have w2: "handler flaky_world configured_context newsletter_event initial_state
     = handler duplicate_world unconfigured_context newsletter_event initial_state"
    using below same T1 [THEN conjunct2, THEN conjunct1] by blast
  have "isAuthorizedRequest invite_event
          (env_value (unconfigured_context ''WEBHOOK_SECRET'')) = Inr True
      \<and> parsePayload invite_event = Inr invite_payload
      \<and> \<not> int (score (scorePayload invite_payload))
             < getDetectorThreshold (env_value (unconfigured_context ''DETECTOR_THRESHOLD''))
      \<and> (cleanString (env_value (unconfigured_context ''TWILIO_ACCOUNT_SID'')) = Inr []
          \<or> cleanString (env_value (unconfigured_context ''TWILIO_AUTH_TOKEN'')) = Inr []
          \<or> cleanString (env_value (unconfigured_context ''TWILIO_WHATSAPP_FROM'')) = Inr []
          \<or> cleanString (env_value (unconfigured_context ''TWILIO_WHATSAPP_TO'')) = Inr [])"
    by (simp add: example_contexts example_authorized invite_parsed invite_score
        getDetectorThreshold_undefined)
      (simp add: unconfigured_context_def context_of_def cleanString_def)
  then have w3: "handler duplicate_world unconfigured_context invite_event initial_state
     = (missing_env_response, initial_state)"
    using T2 [THEN conjunct2, THEN conjunct2, THEN conjunct1] by blast
  have "passes_gate duplicate_world configured_context invite_event invite_payload
      \<and> markAsProcessedIfNew duplicate_world configured_context
            (buildDedupeKey (sha256_hex duplicate_world) invite_payload) initial_state
          = (Inr False, ?st')"
    by (simp add: invite_passes_gate invite_key duplicate_world_marks)
  then have w4: "handler duplicate_world configured_context invite_event initial_state
     = (deduped_response, ?st')"
    using T3 [THEN conjunct2, THEN conjunct2, THEN conjunct2, THEN conjunct1] by blast
  have "isAuthorizedRequest object_subject_event
          (env_value (configured_context ''WEBHOOK_SECRET'')) = Inr True
      \<and> parsePayload object_subject_event = Inl TypeError"
    by (simp add: example_contexts example_authorized object_subject_throws)
  then have w5: "handler duplicate_world configured_context object_subject_event initial_state
     = (internal_error_response, initial_state)"
    using T4 [THEN conjunct2, THEN conjunct2, THEN conjunct2, THEN conjunct2, THEN conjunct1]
    by blast
  show ?thesis
    using w1 w2 w3 w4 w5 by (simp add: newsletter_score)
qed

end
